theory Spec2Isabelle
  imports Main "HOL-Library.Multiset"
begin

section \<open>JavaScript values\<close>

text \<open>
  Request bodies and socket payloads are parsed JSON. A value is one of the JSON shapes,
  or \<open>undefined\<close> (what reading an absent property gives). A number is an integer:
  a position is an integer column, and a number with a fraction is outside the model. An
  object is the association list of its properties, read with \<open>map_of\<close>.
\<close>

datatype jsval =
    JUndefined
  | JNull
  | JBool bool
  | JNum int
  | JStr string
  | JArr "jsval list"
  | JObj "(string \<times> jsval) list"

text \<open>
  What the code can throw: a JavaScript \<open>TypeError\<close> (destructuring or reading a
  property of \<open>null\<close>/\<open>undefined\<close>, iterating a value that is not iterable), and the
  errors of the Prisma client: a query whose arguments have the wrong shape, a record that
  is not there, a violated foreign key, a violated primary key, a number that the integer
  column cannot hold, a division by zero.
\<close>

datatype error =
    TypeError
  | PrismaValidationError
  | RecordNotFound
  | ForeignKeyViolation
  | UniqueConstraintViolation
  | ValueOutOfRange
  | DivisionByZero

text \<open>
  \<open>v.k\<close> and \<open>const { k } = v\<close>. It is only used with the keys \<open>containers\<close>,
  \<open>id\<close>, \<open>items\<close>, \<open>position\<close>, \<open>title\<close>, \<open>description\<close> and
  \<open>containerId\<close>, none of which a boolean, a number, a string or an array has.
\<close>

fun get_prop :: "jsval \<Rightarrow> string \<Rightarrow> error + jsval" where
  "get_prop JUndefined k = Inl TypeError"
| "get_prop JNull k = Inl TypeError"
| "get_prop (JObj kvs) k = Inr (case map_of kvs k of None \<Rightarrow> JUndefined | Some v \<Rightarrow> v)"
| "get_prop v k = Inr JUndefined"

text \<open>
  The values \<open>for (const x of v)\<close> runs over: the elements of an array, the characters
  of a string; anything else of the model is not iterable.
\<close>

fun iterate :: "jsval \<Rightarrow> error + jsval list" where
  "iterate (JArr xs) = Inr xs"
| "iterate (JStr s) = Inr (map (\<lambda>c. JStr [c]) s)"
| "iterate v = Inl TypeError"

section \<open>The store\<close>

record container =
  c_id :: string
  c_title :: string
  c_description :: "string option"
  c_position :: int

record item =
  i_id :: string
  i_title :: string
  i_position :: int
  i_containerId :: string

text \<open>The two tables, each a list of rows in insertion order.\<close>

record store =
  containers :: "container list"
  items :: "item list"

text \<open>
  The Prisma schema and the database behind it are not part of the sources. What the code
  depends on is a parameter of every store operation: whether the database enforces the
  reference from \<open>containerId\<close> to a container, which integers the \<open>position\<close>
  column holds (a JSON number is a double and the column is bounded, so not every integer
  is one), and the quotient the database gives when it divides two integers.
\<close>

record database =
  foreign_keys :: bool
  position_fits :: "int \<Rightarrow> bool"
  quotient :: "int \<Rightarrow> int \<Rightarrow> int"

subsection \<open>Arguments of a Prisma query\<close>

text \<open>
  A field of \<open>data\<close> that is \<open>undefined\<close> is left out of the query (\<open>None\<close>); a
  value of the column's type is written; any other value is refused by the client before
  the query is sent. The \<open>id\<close> of \<open>where\<close> must be a string.
\<close>

fun string_arg :: "jsval \<Rightarrow> error + string option" where
  "string_arg JUndefined = Inr None"
| "string_arg (JStr s) = Inr (Some s)"
| "string_arg v = Inl PrismaValidationError"

fun nullable_string_arg :: "jsval \<Rightarrow> error + string option option" where
  "nullable_string_arg JUndefined = Inr None"
| "nullable_string_arg JNull = Inr (Some None)"
| "nullable_string_arg (JStr s) = Inr (Some (Some s))"
| "nullable_string_arg v = Inl PrismaValidationError"

fun where_id :: "jsval \<Rightarrow> error + string" where
  "where_id (JStr s) = Inr s"
| "where_id v = Inl PrismaValidationError"

text \<open>
  The \<open>data\<close> of an update also takes, in place of a value, an object with exactly one
  operation: \<open>{ set: v }\<close> for every column, and \<open>{ increment: n }\<close>,
  \<open>{ decrement: n }\<close>, \<open>{ multiply: n }\<close>, \<open>{ divide: n }\<close> for an integer column.
\<close>

fun string_write_arg :: "jsval \<Rightarrow> error + string option" where
  "string_write_arg (JObj [(k, JStr s)]) =
     (if k = ''set'' then Inr (Some s) else Inl PrismaValidationError)"
| "string_write_arg v = string_arg v"

fun nullable_string_write_arg :: "jsval \<Rightarrow> error + string option option" where
  "nullable_string_write_arg (JObj [(k, JStr s)]) =
     (if k = ''set'' then Inr (Some (Some s)) else Inl PrismaValidationError)"
| "nullable_string_write_arg (JObj [(k, JNull)]) =
     (if k = ''set'' then Inr (Some None) else Inl PrismaValidationError)"
| "nullable_string_write_arg v = nullable_string_arg v"

datatype int_write = Put int | Increment int | Decrement int | Multiply int | Divide int

definition int_operation :: "string \<Rightarrow> int \<Rightarrow> error + int_write" where
  "int_operation k n =
     (if k = ''set'' then Inr (Put n)
      else if k = ''increment'' then Inr (Increment n)
      else if k = ''decrement'' then Inr (Decrement n)
      else if k = ''multiply'' then Inr (Multiply n)
      else if k = ''divide'' then Inr (Divide n)
      else Inl PrismaValidationError)"

fun int_write_arg :: "jsval \<Rightarrow> error + int_write option" where
  "int_write_arg JUndefined = Inr None"
| "int_write_arg (JNum n) = Inr (Some (Put n))"
| "int_write_arg (JObj [(k, JNum n)]) =
     (case int_operation k n of Inl e \<Rightarrow> Inl e | Inr w \<Rightarrow> Inr (Some w))"
| "int_write_arg v = Inl PrismaValidationError"

text \<open>
  The value an integer column gets from a write and the value it had. The number given and
  the number stored must both be numbers the column holds.
\<close>

definition stored :: "database \<Rightarrow> int \<Rightarrow> error + int" where
  "stored db n = (if position_fits db n then Inr n else Inl ValueOutOfRange)"

fun int_written :: "database \<Rightarrow> int_write \<Rightarrow> int \<Rightarrow> error + int" where
  "int_written db (Put n) old = stored db n"
| "int_written db (Increment n) old =
     (if position_fits db n then stored db (old + n) else Inl ValueOutOfRange)"
| "int_written db (Decrement n) old =
     (if position_fits db n then stored db (old - n) else Inl ValueOutOfRange)"
| "int_written db (Multiply n) old =
     (if position_fits db n then stored db (old * n) else Inl ValueOutOfRange)"
| "int_written db (Divide n) old =
     (if \<not> position_fits db n then Inl ValueOutOfRange
      else if n = 0 then Inl DivisionByZero
      else stored db (quotient db old n))"

subsection \<open>\<open>prisma.item.update\<close>\<close>

definition item_written ::
  "database \<Rightarrow> string option \<Rightarrow> int_write option \<Rightarrow> string option \<Rightarrow> item \<Rightarrow> error + item" where
  "item_written db t p c r =
     (case (case p of None \<Rightarrow> Inr (i_position r) | Some w \<Rightarrow> int_written db w (i_position r)) of
        Inl e \<Rightarrow> Inl e
      | Inr p' \<Rightarrow>
          Inr (r\<lparr>i_title := (case t of None \<Rightarrow> i_title r | Some t' \<Rightarrow> t'),
                i_position := p',
                i_containerId := (case c of None \<Rightarrow> i_containerId r | Some c' \<Rightarrow> c')\<rparr>))"

text \<open>
  \<open>prisma.item.update({ where: { id }, data: { title, position, containerId } })\<close>:
  the row whose \<open>id\<close> is the one given (the primary key makes it one row) gets the
  fields that are not \<open>undefined\<close>; the call throws when no row has that \<open>id\<close>, when
  the database enforces the reference and no container has the new \<open>containerId\<close>, and
  when the new position is not a number the column holds. The updated row is returned with
  the new store.
\<close>

definition item_update ::
  "database \<Rightarrow> store \<Rightarrow> jsval \<Rightarrow> jsval \<Rightarrow> jsval \<Rightarrow> jsval \<Rightarrow> error + (item \<times> store)" where
  "item_update db s wid title pos cid =
     (case where_id wid of Inl e \<Rightarrow> Inl e | Inr i \<Rightarrow>
      case string_write_arg title of Inl e \<Rightarrow> Inl e | Inr t \<Rightarrow>
      case int_write_arg pos of Inl e \<Rightarrow> Inl e | Inr p \<Rightarrow>
      case string_write_arg cid of Inl e \<Rightarrow> Inl e | Inr c \<Rightarrow>
      case find (\<lambda>r. i_id r = i) (items s) of
        None \<Rightarrow> Inl RecordNotFound
      | Some r \<Rightarrow>
          if foreign_keys db \<and>
             (case c of None \<Rightarrow> False | Some c' \<Rightarrow> c' \<notin> set (map c_id (containers s)))
          then Inl ForeignKeyViolation
          else
            (case item_written db t p c r of
               Inl e \<Rightarrow> Inl e
             | Inr r' \<Rightarrow>
                 Inr (r',
                      s\<lparr>items :=
                          map (\<lambda>x. if i_id x = i
                                    then (case item_written db t p c x of Inl e \<Rightarrow> x | Inr x' \<Rightarrow> x')
                                    else x) (items s)\<rparr>)))"

subsection \<open>Reading the board\<close>

text \<open>
  \<open>prisma.container.findMany({ include: { items: { orderBy: { position: 'asc' } } },
  orderBy: { position: 'asc' } })\<close>, the snapshot that \<open>GET /api/containers\<close> and
  the channel send: the containers by ascending position, each with the
  items that refer to it, by ascending position. Rows with equal positions are kept in
  table order (the database leaves their order open).
\<close>

definition findMany :: "store \<Rightarrow> (container \<times> item list) list" where
  "findMany s =
     map (\<lambda>c. (c, sort_key i_position (filter (\<lambda>r. i_containerId r = c_id c) (items s))))
       (sort_key c_position (containers s))"

section \<open>The bulk reorder\<close>

text \<open>The inner loop: \<open>for (const item of items) await prisma.item.update(...)\<close>.\<close>

fun update_items :: "database \<Rightarrow> jsval \<Rightarrow> store \<Rightarrow> jsval list \<Rightarrow> error + store" where
  "update_items db cid s [] = Inr s"
| "update_items db cid s (item # rest) =
     (case get_prop item ''id'' of Inl e \<Rightarrow> Inl e | Inr iid \<Rightarrow>
      case get_prop item ''position'' of Inl e \<Rightarrow> Inl e | Inr pos \<Rightarrow>
      case item_update db s iid JUndefined pos cid of
        Inl e \<Rightarrow> Inl e
      | Inr (r, s') \<Rightarrow> update_items db cid s' rest)"

text \<open>The outer loop: \<open>for (const container of containers) { const { id, items } = container; ... }\<close>.\<close>

fun update_containers :: "database \<Rightarrow> store \<Rightarrow> jsval list \<Rightarrow> error + store" where
  "update_containers db s [] = Inr s"
| "update_containers db s (container # rest) =
     (case get_prop container ''id'' of Inl e \<Rightarrow> Inl e | Inr cid \<Rightarrow>
      case get_prop container ''items'' of Inl e \<Rightarrow> Inl e | Inr its \<Rightarrow>
      case iterate its of Inl e \<Rightarrow> Inl e | Inr xs \<Rightarrow>
      case update_items db cid s xs of
        Inl e \<Rightarrow> Inl e
      | Inr s' \<Rightarrow> update_containers db s' rest)"

definition reorder :: "database \<Rightarrow> jsval \<Rightarrow> store \<Rightarrow> error + store" where
  "reorder db cs s = (case iterate cs of Inl e \<Rightarrow> Inl e | Inr xs \<Rightarrow> update_containers db s xs)"

text \<open>
  \<open>prisma.$transaction(async (prisma) => ...)\<close>: the writes of the callback are kept when
  it returns and rolled back when it throws, and the error is thrown on.
\<close>

definition transaction :: "(store \<Rightarrow> error + store) \<Rightarrow> store \<Rightarrow> (error + unit) \<times> store" where
  "transaction f s = (case f s of Inl e \<Rightarrow> (Inl e, s) | Inr s' \<Rightarrow> (Inr (), s'))"

section \<open>Requests and responses\<close>

datatype body =
    NoBody
  | ErrorBody string
  | MessageBody string
  | ValidationErrors "string list"
  | ContainerBody container
  | ContainerItemsBody container "item list"
  | ItemBody item

text \<open>
  A handler answers with a status and a body, or throws outside its \<open>try\<close>, which
  leaves the request without an answer.
\<close>

datatype outcome = Response nat body | Unhandled error

fun status :: "outcome \<Rightarrow> nat option" where
  "status (Response n b) = Some n"
| "status (Unhandled e) = None"

text \<open>
  The \<open>validate\<close> middleware: \<open>errs\<close> are the fields the route's validators
  refused; when there are any the answer is 400 with the list, otherwise the handler runs.
\<close>

definition validate :: "string list \<Rightarrow> store \<Rightarrow> outcome \<times> store \<Rightarrow> outcome \<times> store" where
  "validate errs s next = (if errs \<noteq> [] then (Response 400 (ValidationErrors errs), s) else next)"

text \<open>\<open>PATCH /api/containers-order-items\<close>: the route has no validator.\<close>

definition patch_containers_order_items :: "database \<Rightarrow> jsval \<Rightarrow> store \<Rightarrow> outcome \<times> store" where
  "patch_containers_order_items db req_body s =
     validate [] s
       (case get_prop req_body ''containers'' of
          Inl e \<Rightarrow> (Unhandled e, s)
        | Inr cs \<Rightarrow>
            (case transaction (reorder db cs) s of
               (Inr u, s') \<Rightarrow> (Response 200 (MessageBody ''Items order updated successfully''), s')
             | (Inl e, s') \<Rightarrow> (Response 500 (ErrorBody ''Error updating items order''), s')))"


subsection \<open>Well-formed reorder batches\<close>

text \<open>
  A batch as the clients send it: containers by id, each with the items it shall hold and
  their positions. \<open>request_json\<close> is the request body \<open>{ containers: [{ id, items:
  [{ id, position }] }] }\<close> of such a batch.
\<close>

type_synonym batch = "(string \<times> (string \<times> int) list) list"

definition item_json :: "string \<times> int \<Rightarrow> jsval" where
  "item_json x = JObj [(''id'', JStr (fst x)), (''position'', JNum (snd x))]"

definition container_json :: "string \<times> (string \<times> int) list \<Rightarrow> jsval" where
  "container_json c = JObj [(''id'', JStr (fst c)), (''items'', JArr (map item_json (snd c)))]"

definition batch_json :: "batch \<Rightarrow> jsval" where
  "batch_json B = JArr (map container_json B)"

definition request_json :: "batch \<Rightarrow> jsval" where
  "request_json B = JObj [(''containers'', batch_json B)]"

text \<open>The references of a batch in the order of the two loops: item id, enclosing container id, position.\<close>

definition refs :: "batch \<Rightarrow> (string \<times> string \<times> int) list" where
  "refs B = concat (map (\<lambda>c. map (\<lambda>x. (fst x, fst c, snd x)) (snd c)) B)"

definition item_ids :: "store \<Rightarrow> string list" where
  "item_ids s = map i_id (items s)"

definition container_ids :: "store \<Rightarrow> string list" where
  "container_ids s = map c_id (containers s)"

text \<open>A valid batch: every enclosing container exists and every referenced item exists.\<close>

definition valid_batch :: "store \<Rightarrow> batch \<Rightarrow> bool" where
  "valid_batch s B =
     (list_all (\<lambda>c. fst c \<in> set (container_ids s)) B \<and>
      list_all (\<lambda>u. fst u \<in> set (item_ids s)) (refs B))"

text \<open>The positions of a batch are numbers the position column holds.\<close>

definition fitting_batch :: "database \<Rightarrow> batch \<Rightarrow> bool" where
  "fitting_batch db B = list_all (\<lambda>u. position_fits db (snd (snd u))) (refs B)"

definition place :: "string \<times> int \<Rightarrow> item \<Rightarrow> item" where
  "place u r = r\<lparr>i_position := snd u, i_containerId := fst u\<rparr>"

definition write_ref :: "string \<times> string \<times> int \<Rightarrow> item list \<Rightarrow> item list" where
  "write_ref u rows = map (\<lambda>x. if i_id x = fst u then place (snd u) x else x) rows"

text \<open>
  What a batch asks for a row: the container and position of the last reference to its id,
  and nothing when the batch does not name it.
\<close>

definition reordered :: "batch \<Rightarrow> item \<Rightarrow> item" where
  "reordered B r = (case map_of (rev (refs B)) (i_id r) of None \<Rightarrow> r | Some u \<Rightarrow> place u r)"

text \<open>
  The board of the specification's example, with ids of five characters: container contA
  holds item1 and item2, container contB holds item3; the batch moves item3 to the head of
  contA.
\<close>

definition example_board :: store where
  "example_board =
     \<lparr>containers =
        [\<lparr>c_id = ''contA'', c_title = ''todo'', c_description = None, c_position = 0\<rparr>,
         \<lparr>c_id = ''contB'', c_title = ''done'', c_description = None, c_position = 1\<rparr>],
      items =
        [\<lparr>i_id = ''item1'', i_title = ''one'', i_position = 0, i_containerId = ''contA''\<rparr>,
         \<lparr>i_id = ''item2'', i_title = ''two'', i_position = 1, i_containerId = ''contA''\<rparr>,
         \<lparr>i_id = ''item3'', i_title = ''three'', i_position = 0, i_containerId = ''contB''\<rparr>]\<rparr>"

definition example_batch :: batch where
  "example_batch = [(''contA'', [(''item3'', 0), (''item1'', 1), (''item2'', 2)]), (''contB'', [])]"

text \<open>
  A database that enforces the reference, with a 32-bit position column and a division
  that truncates.
\<close>

definition example_database :: database where
  "example_database =
     \<lparr>foreign_keys = True,
      position_fits = (\<lambda>n. - 2147483648 \<le> n \<and> n \<le> 2147483647),
      quotient = (\<lambda>a b. sgn a * sgn b * (\<bar>a\<bar> div \<bar>b\<bar>))\<rparr>"

section \<open>The realtime channel\<close>

datatype event = DataUpdated "(container \<times> item list) list"

text \<open>
  \<open>socket.on('updatedItems', async (containers) => ...)\<close>: the transaction, then the
  snapshot, then \<open>io.emit('dataUpdated', newData)\<close> to every connected client. There is
  no \<open>try\<close>: when the transaction throws, the handler ends there with the error.
  The result is the messages sent, each with its receiver, and the error if any.
\<close>

definition on_updatedItems ::
  "database \<Rightarrow> 'c list \<Rightarrow> jsval \<Rightarrow> store \<Rightarrow> (('c \<times> event) list \<times> error option) \<times> store" where
  "on_updatedItems db clients payload s =
     (case transaction (reorder db payload) s of
        (Inl e, s') \<Rightarrow> (([], Some e), s')
      | (Inr u, s') \<Rightarrow> ((map (\<lambda>c. (c, DataUpdated (findMany s'))) clients, None), s'))"

section \<open>Identifiers and validators\<close>

text \<open>
  \<open>uuidv4().replace(/-/g, '').substring(0, 8)\<close>, as a function of the string that
  \<open>uuidv4()\<close> returned.
\<close>

definition generateUUID :: "string \<Rightarrow> string" where
  "generateUUID uuid = take 8 (filter (\<lambda>c. c \<noteq> CHR ''-'') uuid)"

text \<open>The form of a version 4 UUID: 36 characters, hyphens at 8, 13, 18 and 23 and nowhere else.\<close>

definition is_uuid :: "string \<Rightarrow> bool" where
  "is_uuid u =
     (length u = 36 \<and>
      list_all (\<lambda>k. (u ! k = CHR ''-'') = (k = 8 \<or> k = 13 \<or> k = 18 \<or> k = 23)) [0..<36])"

subsection \<open>The text of a value\<close>

text \<open>
  The validators of validator.js work on strings; express-validator first turns the value
  into one. An integer below \<open>10^21\<close> in magnitude prints in decimal. From there on
  JavaScript prints a number in exponent form with the shortest mantissa that reads back
  as the same double; the model keeps the first digit and the exponent of that form and
  drops the rest of the mantissa.
\<close>

function digits_text :: "int \<Rightarrow> string" where
  "digits_text n =
     (if n < 10 then [''0123456789'' ! nat n]
      else digits_text (n div 10) @ [''0123456789'' ! nat (n mod 10)])"
  by pat_completeness auto
termination
  by (relation "measure nat") auto

declare digits_text.simps [simp del]

definition number_text :: "int \<Rightarrow> string" where
  "number_text n =
     (let digits = digits_text \<bar>n\<bar>;
          sign = (if n < 0 then ''-'' else [])
      in if \<bar>n\<bar> < 10 ^ 21 then sign @ digits
         else sign @ take 1 digits @ ''e+'' @ digits_text (int (length digits) - 1))"

text \<open>\<open>Array.prototype.join\<close> with the comma.\<close>

fun join :: "string list \<Rightarrow> string" where
  "join [] = []"
| "join [x] = x"
| "join (x # y # ys) = x @ '','' @ join (y # ys)"

text \<open>
  The text of a value that is not taken apart: nothing for \<open>null\<close> and
  \<open>undefined\<close>, \<open>String(v)\<close> for a boolean, a number and a string, the joined texts
  of the elements for an array, \<open>[object Object]\<close> for an object.
\<close>

fun js_text :: "jsval \<Rightarrow> string" where
  "js_text JUndefined = []"
| "js_text JNull = []"
| "js_text (JBool b) = (if b then ''true'' else ''false'')"
| "js_text (JNum n) = number_text n"
| "js_text (JStr s) = s"
| "js_text (JArr xs) = join (map js_text xs)"
| "js_text (JObj kvs) = ''[object Object]''"

text \<open>express-validator's \<open>toString\<close>: of an array that is not empty, the text of its first element.\<close>

fun validator_text :: "jsval \<Rightarrow> string" where
  "validator_text (JArr (x # xs)) = js_text x"
| "validator_text v = js_text v"

subsection \<open>Validators\<close>

text \<open>
  \<open>isInt\<close>, \<open>isEmpty\<close> and \<open>isLength\<close> of validator.js, on strings: an optionally
  signed run of digits; the empty string; a length within the bounds.
\<close>

definition digits_only :: "string \<Rightarrow> bool" where
  "digits_only str = (str \<noteq> [] \<and> list_all (\<lambda>d. d \<in> set ''0123456789'') str)"

fun isInt :: "string \<Rightarrow> bool" where
  "isInt [] = False"
| "isInt (c # cs) =
     (if c = CHR ''-'' \<or> c = CHR ''+'' then digits_only cs else digits_only (c # cs))"

definition isEmpty :: "string \<Rightarrow> bool" where
  "isEmpty str = (str = [])"

definition isLength :: "nat \<Rightarrow> nat \<Rightarrow> string \<Rightarrow> bool" where
  "isLength lo hi str = (lo \<le> length str \<and> length str \<le> hi)"

text \<open>express-validator's \<open>isString\<close> looks at the value itself: it must be a string.\<close>

fun isString :: "jsval \<Rightarrow> bool" where
  "isString (JStr s) = True"
| "isString v = False"

text \<open>The value a validator of \<open>body(k)\<close> looks at.\<close>

definition field :: "jsval \<Rightarrow> string \<Rightarrow> jsval" where
  "field req_body k = (case get_prop req_body k of Inl e \<Rightarrow> JUndefined | Inr v \<Rightarrow> v)"

text \<open>
  Every validator of a chain that refuses the value adds one entry to the errors of the
  request; the model keeps the name of the field of each entry. A validator of
  validator.js is applied to the text of the value, and to the text of each element when
  the value is an array. After \<open>optional()\<close> a chain does not run on \<open>undefined\<close>.
\<close>

definition check :: "string \<Rightarrow> bool \<Rightarrow> string list" where
  "check name ok = (if ok then [] else [name])"

definition standard :: "string \<Rightarrow> (string \<Rightarrow> bool) \<Rightarrow> jsval \<Rightarrow> string list" where
  "standard name valid v =
     concat (map (\<lambda>x. check name (valid (validator_text x)))
               (case v of JArr xs \<Rightarrow> xs | _ \<Rightarrow> [v]))"

definition optional :: "jsval \<Rightarrow> string list \<Rightarrow> string list" where
  "optional v errs = (if v = JUndefined then [] else errs)"

text \<open>\<open>param('id').isString().isLength({ min: 5, max: 8 })\<close>; a route parameter is a string.\<close>

definition id_errors :: "string \<Rightarrow> string list" where
  "id_errors i = check ''id'' (isString (JStr i)) @ standard ''id'' (isLength 5 8) (JStr i)"

text \<open>\<open>body('title').isString().notEmpty()\<close>.\<close>

definition title_errors :: "jsval \<Rightarrow> string list" where
  "title_errors req_body =
     check ''title'' (isString (field req_body ''title'')) @
     standard ''title'' (\<lambda>str. \<not> isEmpty str) (field req_body ''title'')"

text \<open>\<open>body(k).optional().isString()\<close>.\<close>

definition optional_string_errors :: "string \<Rightarrow> jsval \<Rightarrow> string list" where
  "optional_string_errors k req_body =
     optional (field req_body k) (check k (isString (field req_body k)))"

text \<open>\<open>body('position').optional().isInt()\<close>.\<close>

definition position_errors :: "jsval \<Rightarrow> string list" where
  "position_errors req_body =
     optional (field req_body ''position'') (standard ''position'' isInt (field req_body ''position''))"

text \<open>\<open>body('containerId').optional().isString().isLength({ min: 5, max: 8 })\<close>.\<close>

definition containerId_errors :: "jsval \<Rightarrow> string list" where
  "containerId_errors req_body =
     optional (field req_body ''containerId'')
       (check ''containerId'' (isString (field req_body ''containerId'')) @
        standard ''containerId'' (isLength 5 8) (field req_body ''containerId''))"

section \<open>The other store operations\<close>

text \<open>
  \<open>findFirst({ orderBy: { position: 'desc' } })\<close>: the first row of the table sorted
  by descending position, \<open>null\<close> for an empty table.
\<close>

definition findFirst_desc :: "('a \<Rightarrow> int) \<Rightarrow> 'a list \<Rightarrow> 'a option" where
  "findFirst_desc pos rows = (case rev (sort_key pos rows) of [] \<Rightarrow> None | r # rs \<Rightarrow> Some r)"

text \<open>\<open>prisma.container.findUnique({ where: { id }, include: ... })\<close>.\<close>

definition findUnique :: "store \<Rightarrow> string \<Rightarrow> (container \<times> item list) option" where
  "findUnique s i =
     (case find (\<lambda>c. c_id c = i) (containers s) of
        None \<Rightarrow> None
      | Some c \<Rightarrow> Some (c, sort_key i_position (filter (\<lambda>r. i_containerId r = c_id c) (items s))))"

text \<open>
  \<open>prisma.container.create\<close>: \<open>title\<close> is required, \<open>description\<close> may be absent
  (the column is then empty); an \<open>id\<close> that is already taken violates the primary key,
  and the position must be a number the column holds.
\<close>

definition container_create ::
  "database \<Rightarrow> store \<Rightarrow> string \<Rightarrow> jsval \<Rightarrow> jsval \<Rightarrow> int \<Rightarrow> error + (container \<times> store)" where
  "container_create db s i title description pos =
     (case string_arg title of Inl e \<Rightarrow> Inl e | Inr t \<Rightarrow>
      case nullable_string_arg description of Inl e \<Rightarrow> Inl e | Inr d \<Rightarrow>
      case t of
        None \<Rightarrow> Inl PrismaValidationError
      | Some t' \<Rightarrow>
          if \<not> position_fits db pos then Inl ValueOutOfRange
          else if i \<in> set (map c_id (containers s)) then Inl UniqueConstraintViolation
          else
            (let c = \<lparr>c_id = i, c_title = t',
                      c_description = (case d of None \<Rightarrow> None | Some d' \<Rightarrow> d'),
                      c_position = pos\<rparr>
             in Inr (c, s\<lparr>containers := containers s @ [c]\<rparr>)))"

definition item_create ::
  "database \<Rightarrow> store \<Rightarrow> string \<Rightarrow> jsval \<Rightarrow> int \<Rightarrow> string \<Rightarrow> error + (item \<times> store)" where
  "item_create db s i title pos cid =
     (case string_arg title of Inl e \<Rightarrow> Inl e | Inr t \<Rightarrow>
      case t of
        None \<Rightarrow> Inl PrismaValidationError
      | Some t' \<Rightarrow>
          if \<not> position_fits db pos then Inl ValueOutOfRange
          else if i \<in> set (map i_id (items s)) then Inl UniqueConstraintViolation
          else if foreign_keys db \<and> cid \<notin> set (map c_id (containers s)) then Inl ForeignKeyViolation
          else
            (let r = \<lparr>i_id = i, i_title = t', i_position = pos, i_containerId = cid\<rparr>
             in Inr (r, s\<lparr>items := items s @ [r]\<rparr>)))"

definition container_written ::
  "database \<Rightarrow> string option \<Rightarrow> string option option \<Rightarrow> int_write option \<Rightarrow> container \<Rightarrow>
   error + container" where
  "container_written db t d p c =
     (case (case p of None \<Rightarrow> Inr (c_position c) | Some w \<Rightarrow> int_written db w (c_position c)) of
        Inl e \<Rightarrow> Inl e
      | Inr p' \<Rightarrow>
          Inr (c\<lparr>c_title := (case t of None \<Rightarrow> c_title c | Some t' \<Rightarrow> t'),
                c_description := (case d of None \<Rightarrow> c_description c | Some d' \<Rightarrow> d'),
                c_position := p'\<rparr>))"

text \<open>\<open>prisma.container.update({ where: { id }, data: { title, description, position } })\<close>.\<close>

definition container_update ::
  "database \<Rightarrow> store \<Rightarrow> jsval \<Rightarrow> jsval \<Rightarrow> jsval \<Rightarrow> jsval \<Rightarrow> error + (container \<times> store)" where
  "container_update db s wid title description pos =
     (case where_id wid of Inl e \<Rightarrow> Inl e | Inr i \<Rightarrow>
      case string_write_arg title of Inl e \<Rightarrow> Inl e | Inr t \<Rightarrow>
      case nullable_string_write_arg description of Inl e \<Rightarrow> Inl e | Inr d \<Rightarrow>
      case int_write_arg pos of Inl e \<Rightarrow> Inl e | Inr p \<Rightarrow>
      case find (\<lambda>c. c_id c = i) (containers s) of
        None \<Rightarrow> Inl RecordNotFound
      | Some c \<Rightarrow>
          (case container_written db t d p c of
             Inl e \<Rightarrow> Inl e
           | Inr c' \<Rightarrow>
               Inr (c',
                    s\<lparr>containers :=
                        map (\<lambda>x. if c_id x = i
                                  then (case container_written db t d p x of Inl e \<Rightarrow> x | Inr x' \<Rightarrow> x')
                                  else x) (containers s)\<rparr>)))"

section \<open>The handlers of containers and items\<close>

text \<open>\<open>GET /api/containers/:id\<close>.\<close>

definition get_container :: "string \<Rightarrow> store \<Rightarrow> outcome \<times> store" where
  "get_container i s =
     validate (id_errors i) s
       (case findUnique s i of
          None \<Rightarrow> (Response 404 (ErrorBody ''Container not found''), s)
        | Some (c, its) \<Rightarrow> (Response 200 (ContainerItemsBody c its), s))"

text \<open>\<open>POST /api/containers\<close>; \<open>uuid\<close> is what \<open>uuidv4()\<close> returns in this request.\<close>

definition post_container :: "database \<Rightarrow> string \<Rightarrow> jsval \<Rightarrow> store \<Rightarrow> outcome \<times> store" where
  "post_container db uuid req_body s =
     validate (title_errors req_body @ optional_string_errors ''description'' req_body) s
       (case get_prop req_body ''title'' of Inl e \<Rightarrow> (Unhandled e, s) | Inr title \<Rightarrow>
        case get_prop req_body ''description'' of Inl e \<Rightarrow> (Unhandled e, s) | Inr description \<Rightarrow>
          (let lastContainer = findFirst_desc c_position (containers s);
               newPosition = (case lastContainer of None \<Rightarrow> 0 | Some l \<Rightarrow> c_position l + 1)
           in case container_create db s (''container-'' @ generateUUID uuid) title description newPosition of
                Inl e \<Rightarrow> (Response 500 (ErrorBody ''Error creating container''), s)
              | Inr (newContainer, s') \<Rightarrow> (Response 201 (ContainerBody newContainer), s')))"

text \<open>\<open>PATCH /api/containers/:id\<close>.\<close>

definition patch_container :: "database \<Rightarrow> string \<Rightarrow> jsval \<Rightarrow> store \<Rightarrow> outcome \<times> store" where
  "patch_container db i req_body s =
     validate
       (id_errors i @
        optional_string_errors ''title'' req_body @
        optional_string_errors ''description'' req_body @
        position_errors req_body) s
       (case get_prop req_body ''title'' of Inl e \<Rightarrow> (Unhandled e, s) | Inr title \<Rightarrow>
        case get_prop req_body ''description'' of Inl e \<Rightarrow> (Unhandled e, s) | Inr description \<Rightarrow>
        case get_prop req_body ''position'' of Inl e \<Rightarrow> (Unhandled e, s) | Inr pos \<Rightarrow>
        case container_update db s (JStr i) title description pos of
          Inl e \<Rightarrow> (Response 500 (ErrorBody ''Error updating container''), s)
        | Inr (updatedContainer, s') \<Rightarrow> (Response 200 (ContainerBody updatedContainer), s'))"

text \<open>
  \<open>POST /api/containers/:containerId/items\<close>. The handler awaits the store twice: the
  \<open>findFirst\<close> that gives \<open>newPosition\<close>, then the \<open>create\<close>.
\<close>

definition post_item_read :: "string \<Rightarrow> store \<Rightarrow> int" where
  "post_item_read containerId s =
     (let lastItem = findFirst_desc i_position (filter (\<lambda>r. i_containerId r = containerId) (items s))
      in case lastItem of None \<Rightarrow> 0 | Some l \<Rightarrow> i_position l + 1)"

definition post_item_write ::
  "database \<Rightarrow> string \<Rightarrow> string \<Rightarrow> jsval \<Rightarrow> int \<Rightarrow> store \<Rightarrow> outcome \<times> store" where
  "post_item_write db uuid containerId title newPosition s =
     (case item_create db s (''item-'' @ generateUUID uuid) title newPosition containerId of
        Inl e \<Rightarrow> (Response 500 (ErrorBody ''Error creating item''), s)
      | Inr (newItem, s') \<Rightarrow> (Response 201 (ItemBody newItem), s'))"

text \<open>\<open>param('containerId').isString()\<close> and the chain of \<open>title\<close>.\<close>

definition post_item_errors :: "string \<Rightarrow> jsval \<Rightarrow> string list" where
  "post_item_errors containerId req_body =
     check ''containerId'' (isString (JStr containerId)) @ title_errors req_body"

definition post_item :: "database \<Rightarrow> string \<Rightarrow> string \<Rightarrow> jsval \<Rightarrow> store \<Rightarrow> outcome \<times> store" where
  "post_item db uuid containerId req_body s =
     validate (post_item_errors containerId req_body) s
       (case get_prop req_body ''title'' of Inl e \<Rightarrow> (Unhandled e, s) | Inr title \<Rightarrow>
          post_item_write db uuid containerId title (post_item_read containerId s) s)"

text \<open>\<open>PATCH /api/items/:id\<close>.\<close>

definition patch_item :: "database \<Rightarrow> string \<Rightarrow> jsval \<Rightarrow> store \<Rightarrow> outcome \<times> store" where
  "patch_item db i req_body s =
     validate
       (id_errors i @
        optional_string_errors ''title'' req_body @
        position_errors req_body @
        containerId_errors req_body) s
       (case get_prop req_body ''title'' of Inl e \<Rightarrow> (Unhandled e, s) | Inr title \<Rightarrow>
        case get_prop req_body ''position'' of Inl e \<Rightarrow> (Unhandled e, s) | Inr pos \<Rightarrow>
        case get_prop req_body ''containerId'' of Inl e \<Rightarrow> (Unhandled e, s) | Inr containerId \<Rightarrow>
        case item_update db s (JStr i) title pos containerId of
          Inl e \<Rightarrow> (Response 500 (ErrorBody ''Error updating item''), s)
        | Inr (updatedItem, s') \<Rightarrow> (Response 200 (ItemBody updatedItem), s'))"

section \<open>Two item creations at once\<close>

text \<open>
  Node runs a handler until its next \<open>await\<close>, so two requests interleave at the two
  store calls of the handler. A request in flight has been received, or has read its
  position, or has been answered.
\<close>

record item_request =
  rq_uuid :: string
  rq_containerId :: string
  rq_body :: jsval

datatype progress = Received | Read jsval int | Answered outcome

definition post_item_step :: "database \<Rightarrow> item_request \<Rightarrow> progress \<Rightarrow> store \<Rightarrow> progress \<times> store" where
  "post_item_step db rq pr s =
     (case pr of
        Received \<Rightarrow>
          (let errs = post_item_errors (rq_containerId rq) (rq_body rq)
           in if errs \<noteq> [] then (Answered (Response 400 (ValidationErrors errs)), s)
              else (case get_prop (rq_body rq) ''title'' of
                      Inl e \<Rightarrow> (Answered (Unhandled e), s)
                    | Inr title \<Rightarrow> (Read title (post_item_read (rq_containerId rq) s), s)))
      | Read title newPosition \<Rightarrow>
          (case post_item_write db (rq_uuid rq) (rq_containerId rq) title newPosition s of
             (out, s') \<Rightarrow> (Answered out, s'))
      | Answered out \<Rightarrow> (Answered out, s))"

text \<open>
  A schedule says which of two requests takes the next step (\<open>False\<close> the first,
  \<open>True\<close> the second).
\<close>

fun run_two ::
  "database \<Rightarrow> item_request \<Rightarrow> item_request \<Rightarrow> bool list \<Rightarrow> progress \<times> progress \<times> store \<Rightarrow>
   progress \<times> progress \<times> store" where
  "run_two db a b [] st = st"
| "run_two db a b (second # sched) (pa, pb, s) =
     (if second
      then (case post_item_step db b pb s of (pb', s') \<Rightarrow> run_two db a b sched (pa, pb', s'))
      else (case post_item_step db a pa s of (pa', s') \<Rightarrow> run_two db a b sched (pa', pb, s')))"


section \<open>Properties of the bulk reorder\<close>

lemma find_id_Some: "i \<in> set (map i_id rows) \<Longrightarrow> \<exists>r. find (\<lambda>r. i_id r = i) rows = Some r"
  by (induction rows) auto

lemma find_id_None: "i \<notin> set (map i_id rows) \<Longrightarrow> find (\<lambda>r. i_id r = i) rows = None"
  by (induction rows) auto

lemma item_written_place:
  "position_fits db p \<Longrightarrow> item_written db None (Some (Put p)) (Some c) x = Inr (place (c, p) x)"
  by (simp add: item_written_def stored_def place_def)

lemma item_written_unfit:
  "\<not> position_fits db p \<Longrightarrow> item_written db None (Some (Put p)) (Some c) x = Inl ValueOutOfRange"
  by (simp add: item_written_def stored_def)

lemma item_written_id: "item_written db t p c x = Inr x' \<Longrightarrow> i_id x' = i_id x"
  by (auto simp: item_written_def split: sum.splits)

lemma item_update_ref:
  assumes "i \<in> set (item_ids s)" "foreign_keys db \<longrightarrow> c \<in> set (container_ids s)" "position_fits db p"
  shows "\<exists>r. item_update db s (JStr i) JUndefined (JNum p) (JStr c) =
           Inr (r, s\<lparr>items := write_ref (i, c, p) (items s)\<rparr>)"
proof -
  obtain r where "find (\<lambda>r. i_id r = i) (items s) = Some r"
    using assms(1) find_id_Some unfolding item_ids_def by blast
  then show ?thesis using assms(2,3)
    by (auto simp: item_update_def write_ref_def item_written_place container_ids_def)
qed

lemma item_update_bad:
  assumes "i \<notin> set (item_ids s) \<or> \<not> position_fits db p"
  shows "\<exists>e. item_update db s (JStr i) JUndefined (JNum p) (JStr c) = Inl e"
proof (cases "i \<in> set (item_ids s)")
  case False
  then show ?thesis
    using find_id_None[of i "items s"] by (simp add: item_update_def item_ids_def)
next
  case True
  then obtain r where "find (\<lambda>r. i_id r = i) (items s) = Some r"
    using find_id_Some unfolding item_ids_def by blast
  moreover have "\<not> position_fits db p" using True assms by blast
  ultimately show ?thesis
    by (simp add: item_update_def item_written_unfit)
qed

lemma ids_write_ref: "map i_id (write_ref u rows) = map i_id rows"
  by (induction rows) (auto simp: write_ref_def place_def)

lemma item_json_props:
  "get_prop (item_json x) ''id'' = Inr (JStr (fst x))"
  "get_prop (item_json x) ''position'' = Inr (JNum (snd x))"
  by (simp_all add: item_json_def)

lemma container_json_props:
  "get_prop (container_json c) ''id'' = Inr (JStr (fst c))"
  "get_prop (container_json c) ''items'' = Inr (JArr (map item_json (snd c)))"
  by (simp_all add: container_json_def)

lemma ids_fold_write_ref: "map i_id (fold write_ref us rows) = map i_id rows"
  by (induction us arbitrary: rows) (simp_all add: ids_write_ref)

lemma update_items_refs:
  assumes "list_all (\<lambda>x. fst x \<in> set (item_ids s)) its"
    "list_all (\<lambda>x. position_fits db (snd x)) its"
    "foreign_keys db \<longrightarrow> c \<in> set (container_ids s)"
  shows "update_items db (JStr c) s (map item_json its) =
           Inr (s\<lparr>items := fold write_ref (map (\<lambda>x. (fst x, c, snd x)) its) (items s)\<rparr>)"
  using assms
proof (induction its arbitrary: s)
  case Nil
  then show ?case by simp
next
  case (Cons x its)
  let ?s' = "s\<lparr>items := write_ref (fst x, c, snd x) (items s)\<rparr>"
  from Cons.prems obtain r where
    u: "item_update db s (JStr (fst x)) JUndefined (JNum (snd x)) (JStr c) = Inr (r, ?s')"
    using item_update_ref[of "fst x" s db c "snd x"] by auto
  have "item_ids ?s' = item_ids s" "container_ids ?s' = container_ids s"
    by (simp_all add: item_ids_def container_ids_def ids_write_ref)
  with Cons.prems have "update_items db (JStr c) ?s' (map item_json its) =
     Inr (?s'\<lparr>items := fold write_ref (map (\<lambda>x. (fst x, c, snd x)) its) (items ?s')\<rparr>)"
    by (intro Cons.IH) auto
  then show ?case using u by (simp add: item_json_props)
qed

lemma refs_Cons: "refs (c # B) = map (\<lambda>x. (fst x, fst c, snd x)) (snd c) @ refs B"
  by (simp add: refs_def)

lemma update_containers_refs:
  assumes "list_all (\<lambda>u. fst u \<in> set (item_ids s)) (refs B)"
    "list_all (\<lambda>u. position_fits db (snd (snd u))) (refs B)"
    "foreign_keys db \<longrightarrow> list_all (\<lambda>c. fst c \<in> set (container_ids s)) B"
  shows "update_containers db s (map container_json B) =
           Inr (s\<lparr>items := fold write_ref (refs B) (items s)\<rparr>)"
  using assms
proof (induction B arbitrary: s)
  case Nil
  then show ?case by (simp add: refs_def)
next
  case (Cons c B)
  let ?us = "map (\<lambda>x. (fst x, fst c, snd x)) (snd c)"
  let ?s' = "s\<lparr>items := fold write_ref ?us (items s)\<rparr>"
  have ids: "item_ids ?s' = item_ids s" "container_ids ?s' = container_ids s"
    by (simp_all add: item_ids_def container_ids_def ids_fold_write_ref)
  have its: "list_all (\<lambda>x. fst x \<in> set (item_ids s)) (snd c)"
    using Cons.prems(1) by (simp add: refs_Cons list_all_iff ball_Un image_iff)
  have fits: "list_all (\<lambda>x. position_fits db (snd x)) (snd c)"
    using Cons.prems(2) by (simp add: refs_Cons list_all_iff ball_Un image_iff)
  have inner: "update_items db (JStr (fst c)) s (map item_json (snd c)) = Inr ?s'"
    using update_items_refs[OF its fits, of "fst c"] Cons.prems(3) by simp
  have "update_containers db ?s' (map container_json B) =
          Inr (?s'\<lparr>items := fold write_ref (refs B) (items ?s')\<rparr>)"
    using Cons.prems ids by (intro Cons.IH) (simp_all add: refs_Cons)
  then show ?case using inner by (simp add: container_json_props refs_Cons)
qed

lemma place_place: "place u (place v r) = place u r"
  by (simp add: place_def)

lemma id_place: "i_id (place u r) = i_id r"
  by (simp add: place_def)

lemma id_reordered_aux: "i_id (case m of None \<Rightarrow> r | Some u \<Rightarrow> place u r) = i_id r"
  by (cases m) (simp_all add: id_place)

lemma fold_write_ref_map:
  "fold write_ref us rows =
     map (\<lambda>r. case map_of (rev us) (i_id r) of None \<Rightarrow> r | Some u \<Rightarrow> place u r) rows"
proof (induction us rule: rev_induct)
  case Nil
  then show ?case by simp
next
  case (snoc u us)
  have "fold write_ref (us @ [u]) rows = write_ref u (fold write_ref us rows)"
    by simp
  also have "\<dots> = write_ref u
      (map (\<lambda>r. case map_of (rev us) (i_id r) of None \<Rightarrow> r | Some u \<Rightarrow> place u r) rows)"
    by (simp only: snoc)
  also have "\<dots> = map (\<lambda>r. case map_of (rev (us @ [u])) (i_id r) of None \<Rightarrow> r | Some u \<Rightarrow> place u r) rows"
    unfolding write_ref_def
    by (cases u) (auto simp: id_reordered_aux place_place id_place split: option.split)
  finally show ?case .
qed

lemma reorder_batch_json: "reorder db (batch_json B) s = update_containers db s (map container_json B)"
  by (simp add: reorder_def batch_json_def)

lemma request_json_containers: "get_prop (request_json B) ''containers'' = Inr (batch_json B)"
  by (simp add: request_json_def)

lemma reorder_valid:
  assumes "valid_batch s B" "fitting_batch db B"
  shows "reorder db (batch_json B) s = Inr (s\<lparr>items := map (reordered B) (items s)\<rparr>)"
proof -
  have "update_containers db s (map container_json B) =
          Inr (s\<lparr>items := fold write_ref (refs B) (items s)\<rparr>)"
    using assms by (intro update_containers_refs) (simp_all add: valid_batch_def fitting_batch_def)
  then show ?thesis
    by (simp add: reorder_batch_json fold_write_ref_map reordered_def)
qed

lemma handler_valid:
  assumes "valid_batch s B" "fitting_batch db B"
  shows "patch_containers_order_items db (request_json B) s =
           (Response 200 (MessageBody ''Items order updated successfully''),
            s\<lparr>items := map (reordered B) (items s)\<rparr>)"
  by (simp add: patch_containers_order_items_def validate_def request_json_containers
        transaction_def reorder_valid[OF assms])

lemma id_reordered: "i_id (reordered B r) = i_id r"
  by (simp add: reordered_def id_reordered_aux)

lemma reordered_idem: "reordered B (reordered B r) = reordered B r"
  by (simp add: reordered_def id_reordered_aux place_place split: option.split)

lemma valid_batch_after:
  "valid_batch s B \<Longrightarrow> valid_batch (s\<lparr>items := map (reordered B) (items s)\<rparr>) B"
  by (simp add: valid_batch_def item_ids_def container_ids_def id_reordered comp_def)

lemma item_update_keeps:
  assumes "item_update db s wid t p c = Inr (r, s')"
  shows "item_ids s' = item_ids s \<and> containers s' = containers s"
proof -
  have "map i_id (map (\<lambda>x. if i_id x = i
                             then (case item_written db a b d x of Inl e \<Rightarrow> x | Inr x' \<Rightarrow> x')
                             else x) rows) = map i_id rows"
    for i a b d rows
    by (induction rows) (auto split: sum.split dest: item_written_id)
  then show ?thesis
    using assms
    by (auto simp: item_update_def item_ids_def split: sum.splits option.splits if_splits)
qed

lemma update_items_keeps:
  "update_items db cid s xs = Inr s' \<Longrightarrow> item_ids s' = item_ids s \<and> containers s' = containers s"
proof (induction xs arbitrary: s)
  case Nil
  then show ?case by simp
next
  case (Cons x xs)
  then show ?case
    by (auto split: sum.splits prod.splits dest!: item_update_keeps)
qed

lemma update_containers_keeps:
  "update_containers db s xs = Inr s' \<Longrightarrow> item_ids s' = item_ids s \<and> containers s' = containers s"
proof (induction xs arbitrary: s)
  case Nil
  then show ?case by simp
next
  case (Cons x xs)
  then show ?case
    by (auto split: sum.splits dest!: update_items_keeps)
qed

lemma update_items_bad:
  assumes "\<exists>x \<in> set its. fst x \<notin> set (item_ids s) \<or> \<not> position_fits db (snd x)"
  shows "\<exists>e. update_items db (JStr c) s (map item_json its) = Inl e"
  using assms
proof (induction its arbitrary: s)
  case Nil
  then show ?case by simp
next
  case (Cons x its)
  show ?case
  proof (cases "item_update db s (JStr (fst x)) JUndefined (JNum (snd x)) (JStr c)")
    case (Inl e)
    then show ?thesis by (simp add: item_json_props)
  next
    case (Inr rs)
    obtain r s' where rs: "rs = (r, s')" by (cases rs)
    have "\<not> (fst x \<notin> set (item_ids s) \<or> \<not> position_fits db (snd x))"
      using Inr item_update_bad[of "fst x" s db "snd x" c] by auto
    moreover have "item_ids s' = item_ids s"
      using Inr rs item_update_keeps by blast
    ultimately have "\<exists>x \<in> set its. fst x \<notin> set (item_ids s') \<or> \<not> position_fits db (snd x)"
      using Cons.prems by auto
    from Cons.IH[OF this] show ?thesis
      using Inr rs by (simp add: item_json_props)
  qed
qed

lemma update_containers_bad:
  assumes "\<exists>u \<in> set (refs B). fst u \<notin> set (item_ids s) \<or> \<not> position_fits db (snd (snd u))"
  shows "\<exists>e. update_containers db s (map container_json B) = Inl e"
  using assms
proof (induction B arbitrary: s)
  case Nil
  then show ?case by (simp add: refs_def)
next
  case (Cons c B)
  show ?case
  proof (cases "update_items db (JStr (fst c)) s (map item_json (snd c))")
    case (Inl e)
    then show ?thesis by (simp add: container_json_props)
  next
    case (Inr s')
    have here: "\<not> (\<exists>x \<in> set (snd c). fst x \<notin> set (item_ids s) \<or> \<not> position_fits db (snd x))"
      using Inr update_items_bad[of "snd c" s db "fst c"] by auto
    have "item_ids s' = item_ids s"
      using Inr update_items_keeps by blast
    with here Cons.prems
    have "\<exists>u \<in> set (refs B). fst u \<notin> set (item_ids s') \<or> \<not> position_fits db (snd (snd u))"
      by (auto simp: refs_Cons)
    from Cons.IH[OF this] show ?thesis
      using Inr by (simp add: container_json_props)
  qed
qed

lemma handler_bad:
  assumes "\<exists>u \<in> set (refs B). fst u \<notin> set (item_ids s) \<or> \<not> position_fits db (snd (snd u))"
  shows "patch_containers_order_items db (request_json B) s =
           (Response 500 (ErrorBody ''Error updating items order''), s)"
proof -
  obtain e where "reorder db (batch_json B) s = Inl e"
    using update_containers_bad[OF assms] by (auto simp: reorder_batch_json)
  then show ?thesis
    by (simp add: patch_containers_order_items_def validate_def request_json_containers transaction_def)
qed

lemma handler_atomic:
  "fst (patch_containers_order_items db req s) \<noteq> Response 200 (MessageBody ''Items order updated successfully'')
   \<Longrightarrow> snd (patch_containers_order_items db req s) = s"
  by (auto simp: patch_containers_order_items_def validate_def transaction_def split: sum.splits)

subsection \<open>The snapshot\<close>

lemma set_findMany:
  "set (findMany s) =
     (\<lambda>c. (c, sort_key i_position (filter (\<lambda>r. i_containerId r = c_id c) (items s)))) ` set (containers s)"
  by (simp add: findMany_def)

lemma findMany_has:
  assumes "r \<in> set (items s)" "i_containerId r \<in> set (container_ids s)"
  shows "\<exists>c its. (c, its) \<in> set (findMany s) \<and> c_id c = i_containerId r \<and> r \<in> set its"
proof -
  from assms(2) obtain c where c: "c \<in> set (containers s)" "c_id c = i_containerId r"
    by (auto simp: container_ids_def)
  let ?its = "sort_key i_position (filter (\<lambda>x. i_containerId x = c_id c) (items s))"
  have "(c, ?its) \<in> set (findMany s)" using c(1) by (simp add: set_findMany)
  moreover have "r \<in> set ?its" using assms(1) c(2) by simp
  ultimately show ?thesis using c(2) by blast
qed

lemma findMany_containers:
  "map fst (findMany s) = sort_key c_position (containers s)"
  by (simp add: findMany_def comp_def)

lemma findMany_board:
  "sorted (map (c_position \<circ> fst) (findMany s)) \<and>
   mset (map fst (findMany s)) = mset (containers s) \<and>
   (\<forall>(k, its) \<in> set (findMany s).
      sorted (map i_position its) \<and>
      mset its = mset (filter (\<lambda>r. i_containerId r = c_id k) (items s)))"
proof -
  have "map (c_position \<circ> fst) (findMany s) = map c_position (sort_key c_position (containers s))"
    using findMany_containers[of s] by (metis map_map)
  then have a: "sorted (map (c_position \<circ> fst) (findMany s))" by simp
  have b: "mset (map fst (findMany s)) = mset (containers s)"
    by (simp add: findMany_containers)
  have c: "\<forall>(k, its) \<in> set (findMany s).
      sorted (map i_position its) \<and>
      mset its = mset (filter (\<lambda>r. i_containerId r = c_id k) (items s))"
    by (auto simp: set_findMany)
  from a b c show ?thesis by blast
qed

subsection \<open>The reorder claims\<close>

lemma reordered_unreferenced: "i_id r \<notin> fst ` set (refs B) \<Longrightarrow> reordered B r = r"
  by (simp add: reordered_def map_of_eq_None_iff[THEN iffD2])

lemma reordered_last:
  assumes "refs B = us @ (i_id r, c, p) # vs" "i_id r \<notin> fst ` set vs"
  shows "reordered B r = r\<lparr>i_position := p, i_containerId := c\<rparr>"
proof -
  have "map_of (rev vs) (i_id r) = None"
    using assms(2) by (simp add: map_of_eq_None_iff)
  then have "map_of (rev (refs B)) (i_id r) = Some (c, p)"
    by (simp add: assms(1) map_add_def)
  then show ?thesis by (simp add: reordered_def place_def)
qed

lemma example_valid: "valid_batch example_board example_batch"
  by (simp add: valid_batch_def example_board_def example_batch_def refs_def
        item_ids_def container_ids_def)

lemma example_fitting: "fitting_batch example_database example_batch"
  by (simp add: fitting_batch_def example_database_def example_batch_def refs_def)

lemma example_reordered:
  "map (reordered example_batch) (items example_board) =
     [\<lparr>i_id = ''item1'', i_title = ''one'', i_position = 1, i_containerId = ''contA''\<rparr>,
      \<lparr>i_id = ''item2'', i_title = ''two'', i_position = 2, i_containerId = ''contA''\<rparr>,
      \<lparr>i_id = ''item3'', i_title = ''three'', i_position = 0, i_containerId = ''contA''\<rparr>]"
  by (simp add: reordered_def example_board_def example_batch_def refs_def place_def)

text \<open>
  C1 (as amended). For every valid batch (every enclosing container and every referenced
  item exists) whose positions are numbers the position column holds, the bulk reorder
  answers 200, leaves the containers as they were and rewrites the items table row by row:
  a row the batch does not name is unchanged; a row the batch names gets the position and
  the enclosing container of the last reference to it in the batch, and the snapshot read
  afterwards shows it under that container.
\<close>

theorem reorder_applies_last_reference:
  assumes "valid_batch s B" "fitting_batch db B"
  shows "\<exists>s'. patch_containers_order_items db (request_json B) s =
                 (Response 200 (MessageBody ''Items order updated successfully''), s') \<and>
              containers s' = containers s \<and>
              items s' = map (reordered B) (items s) \<and>
              (\<forall>r \<in> set (items s). i_id r \<notin> fst ` set (refs B) \<longrightarrow> reordered B r = r) \<and>
              (\<forall>r \<in> set (items s). \<forall>us c p vs.
                 refs B = us @ (i_id r, c, p) # vs \<and> i_id r \<notin> fst ` set vs \<longrightarrow>
                   reordered B r = r\<lparr>i_position := p, i_containerId := c\<rparr> \<and>
                   (\<exists>k its. (k, its) \<in> set (findMany s') \<and> c_id k = c \<and>
                      r\<lparr>i_position := p, i_containerId := c\<rparr> \<in> set its))"
proof -
  let ?s' = "s\<lparr>items := map (reordered B) (items s)\<rparr>"
  have snap: "\<exists>k its. (k, its) \<in> set (findMany ?s') \<and> c_id k = c \<and>
                r\<lparr>i_position := p, i_containerId := c\<rparr> \<in> set its"
    if r: "r \<in> set (items s)" and B: "refs B = us @ (i_id r, c, p) # vs" and last: "i_id r \<notin> fst ` set vs"
    for r us c p vs
  proof -
    let ?r' = "r\<lparr>i_position := p, i_containerId := c\<rparr>"
    have eq: "reordered B r = ?r'" using reordered_last[OF B last] .
    have "c \<in> set (map fst B)"
    proof -
      have "(i_id r, c, p) \<in> set (refs B)" by (simp add: B)
      then show ?thesis by (auto simp: refs_def)
    qed
    then have "c \<in> set (container_ids s)"
      using assms(1) by (auto simp: valid_batch_def list_all_iff)
    then have c: "i_containerId ?r' \<in> set (container_ids ?s')"
      by (simp add: container_ids_def)
    have "?r' \<in> set (items ?s')"
      using r eq by (simp add: image_iff) (metis)
    from findMany_has[OF this c] show ?thesis by simp
  qed
  have unref: "\<forall>r \<in> set (items s). i_id r \<notin> fst ` set (refs B) \<longrightarrow> reordered B r = r"
    using reordered_unreferenced by blast
  have ref: "\<forall>r \<in> set (items s). \<forall>us c p vs.
                 refs B = us @ (i_id r, c, p) # vs \<and> i_id r \<notin> fst ` set vs \<longrightarrow>
                   reordered B r = r\<lparr>i_position := p, i_containerId := c\<rparr> \<and>
                   (\<exists>k its. (k, its) \<in> set (findMany ?s') \<and> c_id k = c \<and>
                      r\<lparr>i_position := p, i_containerId := c\<rparr> \<in> set its)"
    using reordered_last snap by blast
  have "patch_containers_order_items db (request_json B) s =
                 (Response 200 (MessageBody ''Items order updated successfully''), ?s') \<and>
              containers ?s' = containers s \<and> items ?s' = map (reordered B) (items s)"
    using handler_valid[OF assms, of] by simp
  with unref ref show ?thesis by blast
qed

theorem reorder_applies_last_reference_witness:
  "valid_batch example_board example_batch \<and>
   fitting_batch example_database example_batch \<and>
   patch_containers_order_items example_database (request_json example_batch) example_board =
     (Response 200 (MessageBody ''Items order updated successfully''),
      \<lparr>containers =
         [\<lparr>c_id = ''contA'', c_title = ''todo'', c_description = None, c_position = 0\<rparr>,
          \<lparr>c_id = ''contB'', c_title = ''done'', c_description = None, c_position = 1\<rparr>],
       items =
         [\<lparr>i_id = ''item1'', i_title = ''one'', i_position = 1, i_containerId = ''contA''\<rparr>,
          \<lparr>i_id = ''item2'', i_title = ''two'', i_position = 2, i_containerId = ''contA''\<rparr>,
          \<lparr>i_id = ''item3'', i_title = ''three'', i_position = 0, i_containerId = ''contA''\<rparr>]\<rparr>) \<and>
   map (\<lambda>(c, its). (c_id c, map i_id its))
     (findMany (snd (patch_containers_order_items example_database (request_json example_batch) example_board))) =
     [(''contA'', [''item3'', ''item1'', ''item2'']), (''contB'', [])]"
proof -
  from reorder_applies_last_reference[OF example_valid example_fitting]
  obtain s' where s': "patch_containers_order_items example_database (request_json example_batch) example_board =
                 (Response 200 (MessageBody ''Items order updated successfully''), s')"
     "containers s' = containers example_board" "items s' = map (reordered example_batch) (items example_board)"
    by blast
  have "s' = \<lparr>containers = containers example_board, items = map (reordered example_batch) (items example_board)\<rparr>"
    using s'(2,3) by (cases s') simp
  then show ?thesis
    using example_valid example_fitting s'(1) example_reordered by (simp add: example_board_def findMany_def)
qed

text \<open>
  C1 as stated fails on two kinds of valid batch. A position that the column does not
  hold, here \<open>2^53\<close> in a 32-bit column, makes the update throw: the answer is 500 and
  nothing is written. And when a batch names an item twice, both references are "given in
  the batch" and only the last one is what the item ends with: here item1 is given
  position 0 and then position 5 in container contA.
\<close>

theorem reorder_duplicate_reference_counterexample:
  "valid_batch example_board [(''contA'', [(''item1'', 9007199254740992)])] \<and>
   patch_containers_order_items example_database
     (request_json [(''contA'', [(''item1'', 9007199254740992)])]) example_board =
     (Response 500 (ErrorBody ''Error updating items order''), example_board) \<and>
   valid_batch example_board [(''contA'', [(''item1'', 0), (''item1'', 5)])] \<and>
   fitting_batch example_database [(''contA'', [(''item1'', 0), (''item1'', 5)])] \<and>
   (''item1'', ''contA'', 0) \<in> set (refs [(''contA'', [(''item1'', 0), (''item1'', 5)])]) \<and>
   map (\<lambda>r. (i_id r, i_containerId r, i_position r))
     (items (snd (patch_containers_order_items example_database
        (request_json [(''contA'', [(''item1'', 0), (''item1'', 5)])]) example_board))) =
     [(''item1'', ''contA'', 5), (''item2'', ''contA'', 1), (''item3'', ''contB'', 0)]"
  by (simp add: valid_batch_def fitting_batch_def example_board_def example_database_def refs_def
        item_ids_def container_ids_def
        patch_containers_order_items_def validate_def transaction_def reorder_def
        request_json_def batch_json_def container_json_def item_json_def
        item_update_def item_written_def stored_def)

text \<open>
  C2. A batch that names an item id which is not in the store makes the bulk reorder fail
  (status 500), and the store after the call is the store before it.
\<close>

theorem reorder_missing_item_unchanged:
  assumes "u \<in> set (refs B)" "fst u \<notin> set (item_ids s)"
  shows "patch_containers_order_items db (request_json B) s =
           (Response 500 (ErrorBody ''Error updating items order''), s)"
  using handler_bad[of B s db] assms by blast

theorem reorder_missing_item_unchanged_witness:
  "(''item9'', ''contB'', 4) \<in> set (refs [(''contA'', [(''item3'', 0)]), (''contB'', [(''item9'', 4)])]) \<and>
   ''item9'' \<notin> set (item_ids example_board) \<and>
   patch_containers_order_items example_database
       (request_json [(''contA'', [(''item3'', 0)]), (''contB'', [(''item9'', 4)])]) example_board =
     (Response 500 (ErrorBody ''Error updating items order''), example_board)"
proof -
  have a: "(''item9'', ''contB'', 4) \<in> set (refs [(''contA'', [(''item3'', 0)]), (''contB'', [(''item9'', 4)])])"
    by (simp add: refs_def)
  have b: "fst (''item9'', ''contB'', 4::int) \<notin> set (item_ids example_board)"
    by (simp add: item_ids_def example_board_def)
  show ?thesis
    using a b reorder_missing_item_unchanged[OF a b, of example_database] by simp
qed

text \<open>
  C3. For a valid batch and any starting state, applying the batch to the state the first
  application left gives the same answer and the same store as the first application: the
  bulk reorder is idempotent. The answer is 200 when the positions of the batch are
  numbers the position column holds.
\<close>

theorem reorder_idempotent:
  assumes "valid_batch s B"
  shows "patch_containers_order_items db (request_json B)
           (snd (patch_containers_order_items db (request_json B) s)) =
         patch_containers_order_items db (request_json B) s \<and>
         (fitting_batch db B \<longrightarrow>
            fst (patch_containers_order_items db (request_json B) s) =
              Response 200 (MessageBody ''Items order updated successfully''))"
proof (cases "fitting_batch db B")
  case True
  then show ?thesis
    by (simp add: handler_valid[OF assms True] handler_valid[OF valid_batch_after[OF assms] True]
          reordered_idem)
next
  case False
  then have "\<exists>u \<in> set (refs B). fst u \<notin> set (item_ids s) \<or> \<not> position_fits db (snd (snd u))"
    by (auto simp: fitting_batch_def list_all_iff)
  from handler_bad[OF this] False show ?thesis by simp
qed

theorem reorder_idempotent_witness:
  "valid_batch example_board example_batch \<and>
   fitting_batch example_database example_batch \<and>
   patch_containers_order_items example_database (request_json example_batch)
     (snd (patch_containers_order_items example_database (request_json example_batch) example_board)) =
   patch_containers_order_items example_database (request_json example_batch) example_board \<and>
   fst (patch_containers_order_items example_database (request_json example_batch) example_board) =
     Response 200 (MessageBody ''Items order updated successfully'') \<and>
   snd (patch_containers_order_items example_database (request_json example_batch) example_board) \<noteq>
     example_board"
proof -
  have "items (snd (patch_containers_order_items example_database (request_json example_batch) example_board))
          \<noteq> items example_board"
    using example_reordered
    by (simp add: handler_valid[OF example_valid example_fitting]) (simp add: example_board_def)
  then have "snd (patch_containers_order_items example_database (request_json example_batch) example_board)
               \<noteq> example_board"
    by auto
  then show ?thesis
    using example_valid example_fitting reorder_idempotent[OF example_valid, of example_database] by simp
qed

section \<open>Properties of the realtime channel\<close>

text \<open>
  C4. When the reorder submitted with \<open>updatedItems\<close> succeeds, every connected client,
  the sender among them, is sent \<open>dataUpdated\<close> with one and the same board, and that
  board is the store as the reorder left it, read again: its containers are the containers
  of the store in ascending position, and each comes with exactly the items of the store
  that refer to it, in ascending position. When the reorder fails nothing is sent to anyone
  and the store is unchanged.
\<close>

theorem updatedItems_broadcast:
  "(reorder db payload s = Inr s' \<longrightarrow>
      (\<exists>board.
         on_updatedItems db clients payload s =
           ((map (\<lambda>c. (c, DataUpdated board)) clients, None), s') \<and>
         sorted (map (c_position \<circ> fst) board) \<and>
         mset (map fst board) = mset (containers s') \<and>
         (\<forall>(k, its) \<in> set board.
            sorted (map i_position its) \<and>
            mset its = mset (filter (\<lambda>r. i_containerId r = c_id k) (items s'))) \<and>
         (sender \<in> set clients \<longrightarrow>
            (sender, DataUpdated board) \<in> set (fst (fst (on_updatedItems db clients payload s)))))) \<and>
   (reorder db payload s = Inl e \<longrightarrow>
      on_updatedItems db clients payload s = (([], Some e), s))"
proof -
  have ok: "\<exists>board.
         on_updatedItems db clients payload s =
           ((map (\<lambda>c. (c, DataUpdated board)) clients, None), s') \<and>
         sorted (map (c_position \<circ> fst) board) \<and>
         mset (map fst board) = mset (containers s') \<and>
         (\<forall>(k, its) \<in> set board.
            sorted (map i_position its) \<and>
            mset its = mset (filter (\<lambda>r. i_containerId r = c_id k) (items s'))) \<and>
         (sender \<in> set clients \<longrightarrow>
            (sender, DataUpdated board) \<in> set (fst (fst (on_updatedItems db clients payload s))))"
    if r: "reorder db payload s = Inr s'"
  proof -
    have sent: "on_updatedItems db clients payload s =
           ((map (\<lambda>c. (c, DataUpdated (findMany s'))) clients, None), s')"
      using r by (simp add: on_updatedItems_def transaction_def)
    then have "sender \<in> set clients \<longrightarrow>
            (sender, DataUpdated (findMany s')) \<in> set (fst (fst (on_updatedItems db clients payload s)))"
      by auto
    with sent findMany_board[of s'] show ?thesis by blast
  qed
  have bad: "on_updatedItems db clients payload s = (([], Some e), s)"
    if "reorder db payload s = Inl e"
    using that by (simp add: on_updatedItems_def transaction_def)
  from ok bad show ?thesis by blast
qed

theorem updatedItems_broadcast_witness:
  "on_updatedItems example_database [1, 2, 3 :: nat] (batch_json example_batch) example_board =
     ((map (\<lambda>c. (c, DataUpdated
         [(\<lparr>c_id = ''contA'', c_title = ''todo'', c_description = None, c_position = 0\<rparr>,
           [\<lparr>i_id = ''item3'', i_title = ''three'', i_position = 0, i_containerId = ''contA''\<rparr>,
            \<lparr>i_id = ''item1'', i_title = ''one'', i_position = 1, i_containerId = ''contA''\<rparr>,
            \<lparr>i_id = ''item2'', i_title = ''two'', i_position = 2, i_containerId = ''contA''\<rparr>]),
          (\<lparr>c_id = ''contB'', c_title = ''done'', c_description = None, c_position = 1\<rparr>, [])]))
        [1, 2, 3], None),
      \<lparr>containers =
         [\<lparr>c_id = ''contA'', c_title = ''todo'', c_description = None, c_position = 0\<rparr>,
          \<lparr>c_id = ''contB'', c_title = ''done'', c_description = None, c_position = 1\<rparr>],
       items =
         [\<lparr>i_id = ''item1'', i_title = ''one'', i_position = 1, i_containerId = ''contA''\<rparr>,
          \<lparr>i_id = ''item2'', i_title = ''two'', i_position = 2, i_containerId = ''contA''\<rparr>,
          \<lparr>i_id = ''item3'', i_title = ''three'', i_position = 0, i_containerId = ''contA''\<rparr>]\<rparr>) \<and>
   on_updatedItems example_database [1, 2, 3 :: nat] (batch_json [(''contA'', [(''item9'', 0)])]) example_board =
     (([], Some RecordNotFound), example_board)"
proof -
  let ?s' = "example_board\<lparr>items := map (reordered example_batch) (items example_board)\<rparr>"
  have ok: "reorder example_database (batch_json example_batch) example_board = Inr ?s'"
    using reorder_valid[OF example_valid example_fitting] .
  have bad: "reorder example_database (batch_json [(''contA'', [(''item9'', 0)])]) example_board =
               Inl RecordNotFound"
    by (simp add: reorder_def batch_json_def container_json_def item_json_def item_update_def
          example_board_def)
  have store: "?s' = \<lparr>containers =
         [\<lparr>c_id = ''contA'', c_title = ''todo'', c_description = None, c_position = 0\<rparr>,
          \<lparr>c_id = ''contB'', c_title = ''done'', c_description = None, c_position = 1\<rparr>],
       items =
         [\<lparr>i_id = ''item1'', i_title = ''one'', i_position = 1, i_containerId = ''contA''\<rparr>,
          \<lparr>i_id = ''item2'', i_title = ''two'', i_position = 2, i_containerId = ''contA''\<rparr>,
          \<lparr>i_id = ''item3'', i_title = ''three'', i_position = 0, i_containerId = ''contA''\<rparr>]\<rparr>"
    by (simp add: example_reordered) (simp add: example_board_def)
  have board: "findMany ?s' =
         [(\<lparr>c_id = ''contA'', c_title = ''todo'', c_description = None, c_position = 0\<rparr>,
           [\<lparr>i_id = ''item3'', i_title = ''three'', i_position = 0, i_containerId = ''contA''\<rparr>,
            \<lparr>i_id = ''item1'', i_title = ''one'', i_position = 1, i_containerId = ''contA''\<rparr>,
            \<lparr>i_id = ''item2'', i_title = ''two'', i_position = 2, i_containerId = ''contA''\<rparr>]),
          (\<lparr>c_id = ''contB'', c_title = ''done'', c_description = None, c_position = 1\<rparr>, [])]"
    unfolding store by (simp add: findMany_def)
  have sent: "on_updatedItems example_database [1, 2, 3 :: nat] (batch_json example_batch) example_board =
           ((map (\<lambda>c. (c, DataUpdated (findMany ?s'))) [1, 2, 3], None), ?s')"
    using ok by (simp add: on_updatedItems_def transaction_def)
  from updatedItems_broadcast[of example_database "batch_json [(''contA'', [(''item9'', 0)])]"
         example_board example_board "[1, 2, 3 :: nat]" 2 RecordNotFound] bad
  have failed: "on_updatedItems example_database [1, 2, 3 :: nat]
                  (batch_json [(''contA'', [(''item9'', 0)])]) example_board =
                (([], Some RecordNotFound), example_board)"
    by simp
  have "on_updatedItems example_database [1, 2, 3 :: nat] (batch_json example_batch) example_board =
           ((map (\<lambda>c. (c, DataUpdated (findMany ?s'))) [1, 2, 3], None), ?s')"
    using sent .
  also have "\<dots> = ((map (\<lambda>c. (c, DataUpdated
         [(\<lparr>c_id = ''contA'', c_title = ''todo'', c_description = None, c_position = 0\<rparr>,
           [\<lparr>i_id = ''item3'', i_title = ''three'', i_position = 0, i_containerId = ''contA''\<rparr>,
            \<lparr>i_id = ''item1'', i_title = ''one'', i_position = 1, i_containerId = ''contA''\<rparr>,
            \<lparr>i_id = ''item2'', i_title = ''two'', i_position = 2, i_containerId = ''contA''\<rparr>]),
          (\<lparr>c_id = ''contB'', c_title = ''done'', c_description = None, c_position = 1\<rparr>, [])]))
        [1, 2, 3], None), ?s')"
    by (simp only: board)
  finally show ?thesis
    using failed store by simp
qed

section \<open>Positions of created rows\<close>

lemma findFirst_desc_Nil: "findFirst_desc pos [] = None"
  by (simp add: findFirst_desc_def)

lemma sorted_le_last: "sorted xs \<Longrightarrow> y \<in> set xs \<Longrightarrow> y \<le> last (xs :: int list)"
  by (induction xs) auto

lemma findFirst_desc_Max:
  assumes "rows \<noteq> []"
  shows "\<exists>l. findFirst_desc pos rows = Some l \<and> l \<in> set rows \<and> pos l = Max (set (map pos rows))"
proof -
  let ?ys = "sort_key pos rows"
  have ne: "?ys \<noteq> []" using assms by (metis length_sort list.size(3) length_0_conv)
  then have r: "rev ?ys = last ?ys # rev (butlast ?ys)"
    by (metis append_butlast_last_id rev.simps(2) rev_append rev_rev_ident append_Nil rev.simps(1) append_Cons)
  have f: "findFirst_desc pos rows = Some (last ?ys)"
    by (simp add: findFirst_desc_def r)
  have mem: "last ?ys \<in> set rows" using ne last_in_set by fastforce
  have "sorted (map pos ?ys)" by simp
  then have "\<forall>y \<in> set (map pos ?ys). y \<le> last (map pos ?ys)"
    using sorted_le_last by blast
  then have "\<forall>y \<in> set (map pos rows). y \<le> pos (last ?ys)"
    using ne by (simp add: last_map)
  moreover have "pos (last ?ys) \<in> set (map pos rows)" using mem by simp
  ultimately have "Max (set (map pos rows)) = pos (last ?ys)"
    by (intro Max_eqI) auto
  then show ?thesis using f mem by simp
qed

lemma newPosition_containers:
  "(case findFirst_desc c_position rows of None \<Rightarrow> 0 | Some l \<Rightarrow> c_position l + 1) =
   (if rows = [] then 0 else Max (set (map c_position rows)) + 1)"
  using findFirst_desc_Max[of rows c_position] by (auto simp: findFirst_desc_Nil)

lemma newPosition_items:
  "(case findFirst_desc i_position rows of None \<Rightarrow> 0 | Some l \<Rightarrow> i_position l + 1) =
   (if rows = [] then 0 else Max (set (map i_position rows)) + 1)"
  using findFirst_desc_Max[of rows i_position] by (auto simp: findFirst_desc_Nil)

lemma post_container_created:
  assumes "post_container db uuid req_body s = (Response 201 (ContainerBody c), s')"
  shows "c_position c = (if containers s = [] then 0 else Max (set (map c_position (containers s))) + 1) \<and>
         c_id c = ''container-'' @ generateUUID uuid \<and>
         s' = s\<lparr>containers := containers s @ [c]\<rparr>"
  using assms
  unfolding post_container_def validate_def container_create_def Let_def newPosition_containers
  by (auto split: if_splits sum.splits option.splits)

lemma post_item_created:
  assumes "post_item db uuid cid req_body s = (Response 201 (ItemBody r), s')"
  shows "i_position r =
           (if filter (\<lambda>x. i_containerId x = cid) (items s) = [] then 0
            else Max (set (map i_position (filter (\<lambda>x. i_containerId x = cid) (items s)))) + 1) \<and>
         i_containerId r = cid \<and>
         i_id r = ''item-'' @ generateUUID uuid \<and>
         s' = s\<lparr>items := items s @ [r]\<rparr>"
  using assms
  unfolding post_item_def post_item_write_def post_item_read_def validate_def item_create_def Let_def
    newPosition_items
  by (auto split: if_splits sum.splits option.splits)

text \<open>
  C5. A created container gets the greatest container position plus one, and 0 on a board
  without containers; a created item gets the greatest position among the items of its
  container plus one, and 0 in a container without items. The new row is appended to its
  table.
\<close>

theorem create_position_after_maximum:
  "(post_container db uuid req_body s = (Response 201 (ContainerBody c), s') \<longrightarrow>
      c_position c = (if containers s = [] then 0 else Max (set (map c_position (containers s))) + 1) \<and>
      s' = s\<lparr>containers := containers s @ [c]\<rparr>) \<and>
   (post_item db uuid' cid req_body' s = (Response 201 (ItemBody r), s'') \<longrightarrow>
      i_position r =
        (if filter (\<lambda>x. i_containerId x = cid) (items s) = [] then 0
         else Max (set (map i_position (filter (\<lambda>x. i_containerId x = cid) (items s)))) + 1) \<and>
      i_containerId r = cid \<and>
      s'' = s\<lparr>items := items s @ [r]\<rparr>)"
  using post_container_created post_item_created by blast

lemma generateUUID_example: "generateUUID ''123e4567-e89b-42d3-a456-426614174000'' = ''123e4567''"
  by (simp add: generateUUID_def)

lemma title_passes: "t \<noteq> [] \<Longrightarrow> title_errors (JObj [(''title'', JStr t)]) = []"
  by (simp add: title_errors_def check_def standard_def field_def isEmpty_def)

lemma absent_passes:
  "optional_string_errors ''description'' (JObj [(''title'', v)]) = []"
  "position_errors (JObj [(''title'', v)]) = []"
  "containerId_errors (JObj [(''title'', v)]) = []"
  by (simp_all add: optional_string_errors_def position_errors_def containerId_errors_def
        optional_def field_def)

lemma post_container_example:
  "post_container example_database ''123e4567-e89b-42d3-a456-426614174000''
     (JObj [(''title'', JStr ''later'')]) example_board =
     (Response 201 (ContainerBody
        \<lparr>c_id = ''container-123e4567'', c_title = ''later'', c_description = None, c_position = 2\<rparr>),
      example_board\<lparr>containers := containers example_board @
        [\<lparr>c_id = ''container-123e4567'', c_title = ''later'', c_description = None, c_position = 2\<rparr>]\<rparr>)"
  by (simp add: post_container_def validate_def title_passes absent_passes findFirst_desc_def
        container_create_def generateUUID_example example_board_def example_database_def Let_def)

lemma post_item_example:
  "post_item example_database ''123e4567-e89b-42d3-a456-426614174000'' ''contA''
     (JObj [(''title'', JStr ''four'')]) example_board =
     (Response 201 (ItemBody
        \<lparr>i_id = ''item-123e4567'', i_title = ''four'', i_position = 2, i_containerId = ''contA''\<rparr>),
      example_board\<lparr>items := items example_board @
        [\<lparr>i_id = ''item-123e4567'', i_title = ''four'', i_position = 2, i_containerId = ''contA''\<rparr>]\<rparr>)"
  by (simp add: post_item_def post_item_errors_def post_item_read_def post_item_write_def validate_def
        check_def title_passes findFirst_desc_def item_create_def generateUUID_example
        example_board_def example_database_def Let_def)

theorem create_position_after_maximum_witness:
  "post_container example_database ''123e4567-e89b-42d3-a456-426614174000''
     (JObj [(''title'', JStr ''later'')]) example_board =
     (Response 201 (ContainerBody
        \<lparr>c_id = ''container-123e4567'', c_title = ''later'', c_description = None, c_position = 2\<rparr>),
      example_board\<lparr>containers := containers example_board @
        [\<lparr>c_id = ''container-123e4567'', c_title = ''later'', c_description = None, c_position = 2\<rparr>]\<rparr>) \<and>
   (2 :: int) = Max (set (map c_position (containers example_board))) + 1 \<and>
   post_item example_database ''123e4567-e89b-42d3-a456-426614174000'' ''contA''
     (JObj [(''title'', JStr ''four'')]) example_board =
     (Response 201 (ItemBody
        \<lparr>i_id = ''item-123e4567'', i_title = ''four'', i_position = 2, i_containerId = ''contA''\<rparr>),
      example_board\<lparr>items := items example_board @
        [\<lparr>i_id = ''item-123e4567'', i_title = ''four'', i_position = 2, i_containerId = ''contA''\<rparr>]\<rparr>) \<and>
   (2 :: int) = Max (set (map i_position (filter (\<lambda>x. i_containerId x = ''contA'') (items example_board)))) + 1"
proof -
  have ne: "containers example_board \<noteq> []"
    "filter (\<lambda>x. i_containerId x = ''contA'') (items example_board) \<noteq> []"
    by (simp_all add: example_board_def)
  from create_position_after_maximum[where db = example_database and
        uuid = "''123e4567-e89b-42d3-a456-426614174000''" and req_body = "JObj [(''title'', JStr ''later'')]"
        and s = example_board
        and c = "\<lparr>c_id = ''container-123e4567'', c_title = ''later'', c_description = None, c_position = 2\<rparr>"
        and s' = "example_board\<lparr>containers := containers example_board @
          [\<lparr>c_id = ''container-123e4567'', c_title = ''later'', c_description = None, c_position = 2\<rparr>]\<rparr>"
        and uuid' = "''123e4567-e89b-42d3-a456-426614174000''" and cid = "''contA''"
        and req_body' = "JObj [(''title'', JStr ''four'')]"
        and r = "\<lparr>i_id = ''item-123e4567'', i_title = ''four'', i_position = 2, i_containerId = ''contA''\<rparr>"
        and s'' = "example_board\<lparr>items := items example_board @
          [\<lparr>i_id = ''item-123e4567'', i_title = ''four'', i_position = 2, i_containerId = ''contA''\<rparr>]\<rparr>"]
  show ?thesis
    using post_container_example post_item_example ne by simp
qed

section \<open>Answers to a missing id\<close>

lemma id_errors_length: "id_errors i = (if isLength 5 8 i then [] else [''id''])"
  by (simp add: id_errors_def check_def standard_def)

text \<open>
  C6 does not hold of the code. An update whose id passes the validators and names no row
  is answered 500 with the generic message, for containers and for items: the handlers
  catch what \<open>update\<close> throws and have no other answer. Reading a container by the same
  id is answered 404.
\<close>

theorem update_missing_id_answers_500:
  "patch_container db ''abcde'' (JObj [(''title'', JStr ''renamed'')]) example_board =
     (Response 500 (ErrorBody ''Error updating container''), example_board) \<and>
   patch_item db ''abcde'' (JObj [(''title'', JStr ''renamed'')]) example_board =
     (Response 500 (ErrorBody ''Error updating item''), example_board) \<and>
   get_container ''abcde'' example_board =
     (Response 404 (ErrorBody ''Container not found''), example_board)"
  by (simp add: patch_container_def patch_item_def get_container_def validate_def id_errors_length
        optional_string_errors_def check_def field_def optional_def absent_passes isLength_def
        container_update_def item_update_def findUnique_def example_board_def)

section \<open>Minted identifiers and the validators\<close>

lemma generateUUID_of_uuid:
  assumes "is_uuid u"
  shows "generateUUID u = take 8 u"
proof -
  have len: "length u = 36" using assms by (simp add: is_uuid_def)
  have nohyph: "u ! k \<noteq> CHR ''-''" if "k < 8" for k
  proof -
    have "k \<in> set [0..<36]" using that by simp
    then have "(u ! k = CHR ''-'') = (k = 8 \<or> k = 13 \<or> k = 18 \<or> k = 23)"
      using assms unfolding is_uuid_def list_all_iff by blast
    then show ?thesis using that by simp
  qed
  have "\<forall>x \<in> set (take 8 u). x \<noteq> CHR ''-''"
    using nohyph len by (auto simp: in_set_conv_nth)
  then have f: "filter (\<lambda>c. c \<noteq> CHR ''-'') (take 8 u) = take 8 u"
    by (simp add: filter_id_conv)
  have "filter (\<lambda>c. c \<noteq> CHR ''-'') u =
          filter (\<lambda>c. c \<noteq> CHR ''-'') (take 8 u) @ filter (\<lambda>c. c \<noteq> CHR ''-'') (drop 8 u)"
    by (metis append_take_drop_id filter_append)
  then show ?thesis using len by (simp add: generateUUID_def f)
qed

lemma minted_lengths:
  "10 \<le> length (''container-'' @ generateUUID uuid)"
  "is_uuid uuid \<Longrightarrow> length (''container-'' @ generateUUID uuid) = 18"
  "is_uuid uuid \<Longrightarrow> length (''item-'' @ generateUUID uuid) = 13"
  by (simp_all add: generateUUID_of_uuid) (simp_all add: is_uuid_def)

text \<open>
  C7 does not hold of the code. The id of a created container is \<open>container-\<close> and up
  to eight more characters, at least 10 characters in all, and the id of a created item is
  13 characters long when \<open>uuidv4()\<close> returns a UUID. The validators of the routes that
  take an id accept 5 to 8 characters, so they answer 400 to every id the API has minted.
\<close>

theorem minted_ids_refused_by_validators:
  "(post_container db uuid req_body s = (Response 201 (ContainerBody c), s') \<longrightarrow>
      10 \<le> length (c_id c) \<and>
      \<not> isLength 5 8 (c_id c) \<and>
      get_container (c_id c) s' = (Response 400 (ValidationErrors [''id'']), s') \<and>
      status (fst (patch_container db (c_id c) patch s')) = Some 400) \<and>
   (is_uuid uuid' \<and> post_item db uuid' cid req_body' s = (Response 201 (ItemBody r), s'') \<longrightarrow>
      length (i_id r) = 13 \<and>
      \<not> isLength 5 8 (i_id r) \<and>
      status (fst (patch_item db (i_id r) patch s'')) = Some 400)"
proof -
  have a: "c_id c = ''container-'' @ generateUUID uuid"
    if "post_container db uuid req_body s = (Response 201 (ContainerBody c), s')"
    using post_container_created[OF that] by simp
  have b: "i_id r = ''item-'' @ generateUUID uuid'"
    if "post_item db uuid' cid req_body' s = (Response 201 (ItemBody r), s'')"
    using post_item_created[OF that] by simp
  have c: "\<not> isLength 5 8 i \<Longrightarrow> get_container i t = (Response 400 (ValidationErrors [''id'']), t)" for i t
    by (simp add: get_container_def validate_def id_errors_length)
  have d: "\<not> isLength 5 8 i \<Longrightarrow> status (fst (patch_container db i patch t)) = Some 400" for i t
    by (simp add: patch_container_def validate_def id_errors_length)
  have e: "\<not> isLength 5 8 i \<Longrightarrow> status (fst (patch_item db i patch t)) = Some 400" for i t
    by (simp add: patch_item_def validate_def id_errors_length)
  have l1: "\<not> isLength 5 8 (''container-'' @ generateUUID uuid)"
    using minted_lengths(1)[of uuid] by (simp add: isLength_def)
  have l2: "is_uuid uuid' \<Longrightarrow> \<not> isLength 5 8 (''item-'' @ generateUUID uuid')"
    using minted_lengths(3)[of uuid'] by (simp add: isLength_def)
  show ?thesis
    using a b c d e l1 l2 minted_lengths(1)[of uuid] minted_lengths(3)[of uuid']
    by (metis (no_types, lifting))
qed

lemma is_uuid_example: "is_uuid ''123e4567-e89b-42d3-a456-426614174000''"
  by code_simp

theorem minted_ids_refused_by_validators_witness:
  "is_uuid ''123e4567-e89b-42d3-a456-426614174000'' \<and>
   fst (post_container example_database ''123e4567-e89b-42d3-a456-426614174000''
          (JObj [(''title'', JStr ''later'')]) example_board) =
     Response 201 (ContainerBody
        \<lparr>c_id = ''container-123e4567'', c_title = ''later'', c_description = None, c_position = 2\<rparr>) \<and>
   fst (get_container ''container-123e4567''
          (snd (post_container example_database ''123e4567-e89b-42d3-a456-426614174000''
                  (JObj [(''title'', JStr ''later'')]) example_board))) =
     Response 400 (ValidationErrors [''id'']) \<and>
   fst (post_item example_database ''123e4567-e89b-42d3-a456-426614174000'' ''contA''
          (JObj [(''title'', JStr ''four'')]) example_board) =
     Response 201 (ItemBody
        \<lparr>i_id = ''item-123e4567'', i_title = ''four'', i_position = 2, i_containerId = ''contA''\<rparr>) \<and>
   status (fst (patch_item example_database ''item-123e4567'' (JObj [(''title'', JStr ''five'')])
          (snd (post_item example_database ''123e4567-e89b-42d3-a456-426614174000'' ''contA''
                  (JObj [(''title'', JStr ''four'')]) example_board)))) =
     Some 400"
  using is_uuid_example post_container_example post_item_example
    minted_ids_refused_by_validators[where db = example_database and
        uuid = "''123e4567-e89b-42d3-a456-426614174000''" and req_body = "JObj [(''title'', JStr ''later'')]"
        and s = example_board
        and c = "\<lparr>c_id = ''container-123e4567'', c_title = ''later'', c_description = None, c_position = 2\<rparr>"
        and s' = "example_board\<lparr>containers := containers example_board @
          [\<lparr>c_id = ''container-123e4567'', c_title = ''later'', c_description = None, c_position = 2\<rparr>]\<rparr>"
        and cid = "''contA''"
        and uuid' = "''123e4567-e89b-42d3-a456-426614174000''" and req_body' = "JObj [(''title'', JStr ''four'')]"
        and r = "\<lparr>i_id = ''item-123e4567'', i_title = ''four'', i_position = 2, i_containerId = ''contA''\<rparr>"
        and s'' = "example_board\<lparr>items := items example_board @
          [\<lparr>i_id = ''item-123e4567'', i_title = ''four'', i_position = 2, i_containerId = ''contA''\<rparr>]\<rparr>"
        and patch = "JObj [(''title'', JStr ''five'')]"]
  by simp

section \<open>Malformed reorder requests\<close>

lemma reorder_status_not_400:
  "status (fst (patch_containers_order_items db req_body s)) \<noteq> Some 400"
  by (auto simp: patch_containers_order_items_def validate_def transaction_def
      split: sum.splits prod.splits)

text \<open>
  C8 does not hold of the code. The reorder route runs \<open>validate\<close> with no validator,
  so no request is answered 400. A body without \<open>containers\<close>, or with one that is not
  an array, fails inside the transaction and is answered 500. An entry without
  \<open>position\<close> is applied: the answer is 200 and the item has moved to the enclosing
  container.
\<close>

theorem malformed_reorder_not_refused:
  "patch_containers_order_items db (JObj []) s =
     (Response 500 (ErrorBody ''Error updating items order''), s) \<and>
   patch_containers_order_items db (JObj [(''containers'', JStr ''oops'')]) s =
     (Response 500 (ErrorBody ''Error updating items order''), s) \<and>
   patch_containers_order_items example_database
     (JObj [(''containers'', JArr [JObj [(''id'', JStr ''contB''),
                                         (''items'', JArr [JObj [(''id'', JStr ''item1'')]])]])])
     example_board =
     (Response 200 (MessageBody ''Items order updated successfully''),
      example_board\<lparr>items :=
        [\<lparr>i_id = ''item1'', i_title = ''one'', i_position = 0, i_containerId = ''contB''\<rparr>,
         \<lparr>i_id = ''item2'', i_title = ''two'', i_position = 1, i_containerId = ''contA''\<rparr>,
         \<lparr>i_id = ''item3'', i_title = ''three'', i_position = 0, i_containerId = ''contB''\<rparr>]\<rparr>) \<and>
   status (fst (patch_containers_order_items db req_body s)) \<noteq> Some 400"
proof -
  have a: "patch_containers_order_items db (JObj []) s =
     (Response 500 (ErrorBody ''Error updating items order''), s)"
    by (simp add: patch_containers_order_items_def validate_def transaction_def reorder_def)
  have b: "patch_containers_order_items db (JObj [(''containers'', JStr ''oops'')]) s =
     (Response 500 (ErrorBody ''Error updating items order''), s)"
    by (simp add: patch_containers_order_items_def validate_def transaction_def reorder_def)
  have c: "patch_containers_order_items example_database
     (JObj [(''containers'', JArr [JObj [(''id'', JStr ''contB''),
                                         (''items'', JArr [JObj [(''id'', JStr ''item1'')]])]])])
     example_board =
     (Response 200 (MessageBody ''Items order updated successfully''),
      example_board\<lparr>items :=
        [\<lparr>i_id = ''item1'', i_title = ''one'', i_position = 0, i_containerId = ''contB''\<rparr>,
         \<lparr>i_id = ''item2'', i_title = ''two'', i_position = 1, i_containerId = ''contA''\<rparr>,
         \<lparr>i_id = ''item3'', i_title = ''three'', i_position = 0, i_containerId = ''contB''\<rparr>]\<rparr>)"
    by (simp add: patch_containers_order_items_def validate_def transaction_def reorder_def
          item_update_def item_written_def example_board_def example_database_def)
  show ?thesis using a b c reorder_status_not_400 by blast
qed

section \<open>Interleaved creations\<close>

lemma post_item_in_two_steps:
  "(case post_item_step db rq Received s of (p1, s1) \<Rightarrow> post_item_step db rq p1 s1) =
   (case post_item db (rq_uuid rq) (rq_containerId rq) (rq_body rq) s of (out, s') \<Rightarrow> (Answered out, s'))"
  by (auto simp: post_item_step_def post_item_def validate_def Let_def split: sum.splits prod.splits)

text \<open>
  C9 does not hold of the code. Two creations in the same empty container whose reads both
  happen before either write both get position 0: the read of the greatest position and
  the insert are two separate store calls, outside any transaction.
\<close>

theorem concurrent_item_creates_collide:
  "run_two example_database
     \<lparr>rq_uuid = ''11111111-1111-4111-8111-111111111111'', rq_containerId = ''contA'',
      rq_body = JObj [(''title'', JStr ''first'')]\<rparr>
     \<lparr>rq_uuid = ''22222222-2222-4222-8222-222222222222'', rq_containerId = ''contA'',
      rq_body = JObj [(''title'', JStr ''second'')]\<rparr>
     [False, True, False, True]
     (Received, Received,
      \<lparr>containers = [\<lparr>c_id = ''contA'', c_title = ''todo'', c_description = None, c_position = 0\<rparr>],
       items = []\<rparr>) =
   (Answered (Response 201 (ItemBody
      \<lparr>i_id = ''item-11111111'', i_title = ''first'', i_position = 0, i_containerId = ''contA''\<rparr>)),
    Answered (Response 201 (ItemBody
      \<lparr>i_id = ''item-22222222'', i_title = ''second'', i_position = 0, i_containerId = ''contA''\<rparr>)),
    \<lparr>containers = [\<lparr>c_id = ''contA'', c_title = ''todo'', c_description = None, c_position = 0\<rparr>],
     items =
       [\<lparr>i_id = ''item-11111111'', i_title = ''first'', i_position = 0, i_containerId = ''contA''\<rparr>,
        \<lparr>i_id = ''item-22222222'', i_title = ''second'', i_position = 0, i_containerId = ''contA''\<rparr>]\<rparr>)"
  by (simp add: post_item_step_def post_item_errors_def post_item_read_def post_item_write_def
        check_def title_passes findFirst_desc_def item_create_def generateUUID_def
        example_database_def Let_def)

text \<open>One request after the other gives positions 0 and 1.\<close>

lemma sequential_item_creates:
  "run_two example_database
     \<lparr>rq_uuid = ''11111111-1111-4111-8111-111111111111'', rq_containerId = ''contA'',
      rq_body = JObj [(''title'', JStr ''first'')]\<rparr>
     \<lparr>rq_uuid = ''22222222-2222-4222-8222-222222222222'', rq_containerId = ''contA'',
      rq_body = JObj [(''title'', JStr ''second'')]\<rparr>
     [False, False, True, True]
     (Received, Received,
      \<lparr>containers = [\<lparr>c_id = ''contA'', c_title = ''todo'', c_description = None, c_position = 0\<rparr>],
       items = []\<rparr>) =
   (Answered (Response 201 (ItemBody
      \<lparr>i_id = ''item-11111111'', i_title = ''first'', i_position = 0, i_containerId = ''contA''\<rparr>)),
    Answered (Response 201 (ItemBody
      \<lparr>i_id = ''item-22222222'', i_title = ''second'', i_position = 1, i_containerId = ''contA''\<rparr>)),
    \<lparr>containers = [\<lparr>c_id = ''contA'', c_title = ''todo'', c_description = None, c_position = 0\<rparr>],
     items =
       [\<lparr>i_id = ''item-11111111'', i_title = ''first'', i_position = 0, i_containerId = ''contA''\<rparr>,
        \<lparr>i_id = ''item-22222222'', i_title = ''second'', i_position = 1, i_containerId = ''contA''\<rparr>]\<rparr>)"
  by (simp add: post_item_step_def post_item_errors_def post_item_read_def post_item_write_def
        check_def title_passes findFirst_desc_def item_create_def generateUUID_def
        example_database_def Let_def)

section \<open>Fields an update leaves alone\<close>

lemma map_if_same:
  "(\<And>x. f (g x) = f x) \<Longrightarrow> map f (map (\<lambda>x. if P x then g x else x) xs) = map f xs"
  by (induction xs) auto

lemma item_written_keeps:
  "i_id (case item_written db t p c x of Inl e \<Rightarrow> x | Inr x' \<Rightarrow> x') = i_id x"
  "i_title (case item_written db None p c x of Inl e \<Rightarrow> x | Inr x' \<Rightarrow> x') = i_title x"
  "i_position (case item_written db t None c x of Inl e \<Rightarrow> x | Inr x' \<Rightarrow> x') = i_position x"
  "i_containerId (case item_written db t p None x of Inl e \<Rightarrow> x | Inr x' \<Rightarrow> x') = i_containerId x"
  by (auto simp: item_written_def split: sum.split option.split)

lemma container_written_keeps:
  "c_id (case container_written db t d p x of Inl e \<Rightarrow> x | Inr x' \<Rightarrow> x') = c_id x"
  "c_title (case container_written db None d p x of Inl e \<Rightarrow> x | Inr x' \<Rightarrow> x') = c_title x"
  "c_description (case container_written db t None p x of Inl e \<Rightarrow> x | Inr x' \<Rightarrow> x') = c_description x"
  "c_position (case container_written db t d None x of Inl e \<Rightarrow> x | Inr x' \<Rightarrow> x') = c_position x"
  by (auto simp: container_written_def split: sum.split option.split)

lemma item_update_frame:
  assumes "item_update db s wid t p c = Inr (r, s')"
  shows "containers s' = containers s \<and>
         map i_id (items s') = map i_id (items s) \<and>
         (t = JUndefined \<longrightarrow> map i_title (items s') = map i_title (items s)) \<and>
         (p = JUndefined \<longrightarrow> map i_position (items s') = map i_position (items s)) \<and>
         (c = JUndefined \<longrightarrow> map i_containerId (items s') = map i_containerId (items s))"
proof -
  from assms obtain i t' p' c' where
    args: "where_id wid = Inr i" "string_write_arg t = Inr t'" "int_write_arg p = Inr p'"
      "string_write_arg c = Inr c'"
    and s': "s' = s\<lparr>items := map (\<lambda>x. if i_id x = i
                then (case item_written db t' p' c' x of Inl e \<Rightarrow> x | Inr x' \<Rightarrow> x') else x) (items s)\<rparr>"
    by (auto simp: item_update_def split: sum.splits option.splits if_splits)
  have "t = JUndefined \<Longrightarrow> t' = None" "p = JUndefined \<Longrightarrow> p' = None" "c = JUndefined \<Longrightarrow> c' = None"
    using args by auto
  then show ?thesis
    unfolding s' by (auto intro!: map_if_same simp: item_written_keeps)
qed

lemma container_update_frame:
  assumes "container_update db s wid t d p = Inr (r, s')"
  shows "items s' = items s \<and>
         map c_id (containers s') = map c_id (containers s) \<and>
         (t = JUndefined \<longrightarrow> map c_title (containers s') = map c_title (containers s)) \<and>
         (d = JUndefined \<longrightarrow> map c_description (containers s') = map c_description (containers s)) \<and>
         (p = JUndefined \<longrightarrow> map c_position (containers s') = map c_position (containers s))"
proof -
  from assms obtain i t' d' p' where
    args: "where_id wid = Inr i" "string_write_arg t = Inr t'" "nullable_string_write_arg d = Inr d'"
      "int_write_arg p = Inr p'"
    and s': "s' = s\<lparr>containers := map (\<lambda>x. if c_id x = i
                then (case container_written db t' d' p' x of Inl e \<Rightarrow> x | Inr x' \<Rightarrow> x') else x)
                (containers s)\<rparr>"
    by (auto simp: container_update_def split: sum.splits option.splits if_splits)
  have "t = JUndefined \<Longrightarrow> t' = None" "d = JUndefined \<Longrightarrow> d' = None" "p = JUndefined \<Longrightarrow> p' = None"
    using args by auto
  then show ?thesis
    unfolding s' by (auto intro!: map_if_same simp: container_written_keeps)
qed

lemma patch_item_cases:
  "snd (patch_item db i b s) = s \<or>
   (\<exists>r s'. item_update db s (JStr i) (field b ''title'') (field b ''position'') (field b ''containerId'') = Inr (r, s') \<and>
      patch_item db i b s = (Response 200 (ItemBody r), s'))"
  by (auto simp: patch_item_def validate_def field_def split: sum.splits prod.splits)

lemma patch_container_cases:
  "snd (patch_container db i b s) = s \<or>
   (\<exists>r s'. container_update db s (JStr i) (field b ''title'') (field b ''description'') (field b ''position'') = Inr (r, s') \<and>
      patch_container db i b s = (Response 200 (ContainerBody r), s'))"
  by (auto simp: patch_container_def validate_def field_def split: sum.splits prod.splits)

text \<open>
  C10. A field that the body of an update request omits keeps its value in every row:
  \<open>title\<close>, \<open>position\<close> and \<open>containerId\<close> of the items for an item update,
  \<open>title\<close>, \<open>description\<close> and \<open>position\<close> of the containers for a container
  update, whatever the answer is.
\<close>

theorem update_keeps_omitted_fields:
  "(field b ''title'' = JUndefined \<longrightarrow>
      map i_title (items (snd (patch_item db i b s))) = map i_title (items s)) \<and>
   (field b ''position'' = JUndefined \<longrightarrow>
      map i_position (items (snd (patch_item db i b s))) = map i_position (items s)) \<and>
   (field b ''containerId'' = JUndefined \<longrightarrow>
      map i_containerId (items (snd (patch_item db i b s))) = map i_containerId (items s)) \<and>
   (field b ''title'' = JUndefined \<longrightarrow>
      map c_title (containers (snd (patch_container db i b s))) = map c_title (containers s)) \<and>
   (field b ''description'' = JUndefined \<longrightarrow>
      map c_description (containers (snd (patch_container db i b s))) = map c_description (containers s)) \<and>
   (field b ''position'' = JUndefined \<longrightarrow>
      map c_position (containers (snd (patch_container db i b s))) = map c_position (containers s))"
proof -
  have it: "(field b ''title'' = JUndefined \<longrightarrow>
      map i_title (items (snd (patch_item db i b s))) = map i_title (items s)) \<and>
   (field b ''position'' = JUndefined \<longrightarrow>
      map i_position (items (snd (patch_item db i b s))) = map i_position (items s)) \<and>
   (field b ''containerId'' = JUndefined \<longrightarrow>
      map i_containerId (items (snd (patch_item db i b s))) = map i_containerId (items s))"
    using patch_item_cases[of db i b s] item_update_frame by (elim disjE exE conjE) (simp, fastforce)
  have co: "(field b ''title'' = JUndefined \<longrightarrow>
      map c_title (containers (snd (patch_container db i b s))) = map c_title (containers s)) \<and>
   (field b ''description'' = JUndefined \<longrightarrow>
      map c_description (containers (snd (patch_container db i b s))) = map c_description (containers s)) \<and>
   (field b ''position'' = JUndefined \<longrightarrow>
      map c_position (containers (snd (patch_container db i b s))) = map c_position (containers s))"
    using patch_container_cases[of db i b s] container_update_frame by (elim disjE exE conjE) (simp, fastforce)
  from it co show ?thesis by blast
qed

theorem update_keeps_omitted_fields_witness:
  "field (JObj [(''title'', JStr ''renamed'')]) ''position'' = JUndefined \<and>
   field (JObj [(''title'', JStr ''renamed'')]) ''containerId'' = JUndefined \<and>
   field (JObj [(''title'', JStr ''renamed'')]) ''description'' = JUndefined \<and>
   patch_item example_database ''item2'' (JObj [(''title'', JStr ''renamed'')]) example_board =
     (Response 200 (ItemBody
        \<lparr>i_id = ''item2'', i_title = ''renamed'', i_position = 1, i_containerId = ''contA''\<rparr>),
      example_board\<lparr>items :=
        [\<lparr>i_id = ''item1'', i_title = ''one'', i_position = 0, i_containerId = ''contA''\<rparr>,
         \<lparr>i_id = ''item2'', i_title = ''renamed'', i_position = 1, i_containerId = ''contA''\<rparr>,
         \<lparr>i_id = ''item3'', i_title = ''three'', i_position = 0, i_containerId = ''contB''\<rparr>]\<rparr>) \<and>
   map i_position (items (snd (patch_item example_database ''item2''
       (JObj [(''title'', JStr ''renamed'')]) example_board))) = [0, 1, 0] \<and>
   patch_container example_database ''contB'' (JObj [(''title'', JStr ''renamed'')]) example_board =
     (Response 200 (ContainerBody
        \<lparr>c_id = ''contB'', c_title = ''renamed'', c_description = None, c_position = 1\<rparr>),
      example_board\<lparr>containers :=
        [\<lparr>c_id = ''contA'', c_title = ''todo'', c_description = None, c_position = 0\<rparr>,
         \<lparr>c_id = ''contB'', c_title = ''renamed'', c_description = None, c_position = 1\<rparr>]\<rparr>) \<and>
   map c_position (containers (snd (patch_container example_database ''contB''
       (JObj [(''title'', JStr ''renamed'')]) example_board))) = [0, 1]"
proof -
  have a: "patch_item example_database ''item2'' (JObj [(''title'', JStr ''renamed'')]) example_board =
     (Response 200 (ItemBody
        \<lparr>i_id = ''item2'', i_title = ''renamed'', i_position = 1, i_containerId = ''contA''\<rparr>),
      example_board\<lparr>items :=
        [\<lparr>i_id = ''item1'', i_title = ''one'', i_position = 0, i_containerId = ''contA''\<rparr>,
         \<lparr>i_id = ''item2'', i_title = ''renamed'', i_position = 1, i_containerId = ''contA''\<rparr>,
         \<lparr>i_id = ''item3'', i_title = ''three'', i_position = 0, i_containerId = ''contB''\<rparr>]\<rparr>)"
    by (simp add: patch_item_def validate_def id_errors_length optional_string_errors_def check_def
          field_def optional_def absent_passes isLength_def
          item_update_def item_written_def example_board_def)
  have b: "patch_container example_database ''contB'' (JObj [(''title'', JStr ''renamed'')]) example_board =
     (Response 200 (ContainerBody
        \<lparr>c_id = ''contB'', c_title = ''renamed'', c_description = None, c_position = 1\<rparr>),
      example_board\<lparr>containers :=
        [\<lparr>c_id = ''contA'', c_title = ''todo'', c_description = None, c_position = 0\<rparr>,
         \<lparr>c_id = ''contB'', c_title = ''renamed'', c_description = None, c_position = 1\<rparr>]\<rparr>)"
    by (simp add: patch_container_def validate_def id_errors_length optional_string_errors_def check_def
          field_def optional_def absent_passes isLength_def
          container_update_def container_written_def example_board_def)
  have f: "field (JObj [(''title'', JStr ''renamed'')]) ''position'' = JUndefined"
    "field (JObj [(''title'', JStr ''renamed'')]) ''containerId'' = JUndefined"
    "field (JObj [(''title'', JStr ''renamed'')]) ''description'' = JUndefined"
    by (simp_all add: field_def)
  have p: "map i_position (items example_board) = [0, 1, 0]" "map c_position (containers example_board) = [0, 1]"
    by (simp_all add: example_board_def)
  from update_keeps_omitted_fields[of "JObj [(''title'', JStr ''renamed'')]" example_database "''item2''" example_board]
       update_keeps_omitted_fields[of "JObj [(''title'', JStr ''renamed'')]" example_database "''contB''" example_board]
  show ?thesis using a b f p by simp
qed

end
